theory Spec2Isabelle
  imports Complex_Main "HOL-Library.Word"
begin

section \<open>Values handed to and returned by NumPy\<close>

text \<open>
  A NumPy float: a finite value, one of the two infinities, or not-a-number.
  Finite arithmetic is exact (rounding, and the overflow of a finite result, are not
  modelled); the special values follow IEEE 754.
\<close>

datatype npfloat = Fin real | PInf | NInf | NaN

fun np_isnan :: "npfloat \<Rightarrow> bool" where
  "np_isnan NaN = True"
| "np_isnan _ = False"

fun np_isfinite :: "npfloat \<Rightarrow> bool" where
  "np_isfinite (Fin _) = True"
| "np_isfinite _ = False"

fun fl_neg :: "npfloat \<Rightarrow> npfloat" where
  "fl_neg (Fin a) = Fin (- a)"
| "fl_neg PInf = NInf"
| "fl_neg NInf = PInf"
| "fl_neg NaN = NaN"

fun fl_add :: "npfloat \<Rightarrow> npfloat \<Rightarrow> npfloat" where
  "fl_add NaN _ = NaN"
| "fl_add _ NaN = NaN"
| "fl_add (Fin a) (Fin b) = Fin (a + b)"
| "fl_add PInf NInf = NaN"
| "fl_add NInf PInf = NaN"
| "fl_add PInf _ = PInf"
| "fl_add _ PInf = PInf"
| "fl_add NInf _ = NInf"
| "fl_add _ NInf = NInf"

definition fl_sub :: "npfloat \<Rightarrow> npfloat \<Rightarrow> npfloat" where
  "fl_sub a b = fl_add a (fl_neg b)"

text \<open>The sign of a float, for the product with an infinity: \<open>None\<close> for zero and NaN.\<close>

fun fl_positive :: "npfloat \<Rightarrow> bool option" where
  "fl_positive (Fin a) = (if a = 0 then None else Some (0 < a))"
| "fl_positive PInf = Some True"
| "fl_positive NInf = Some False"
| "fl_positive NaN = None"

fun fl_mul :: "npfloat \<Rightarrow> npfloat \<Rightarrow> npfloat" where
  "fl_mul (Fin a) (Fin b) = Fin (a * b)"
| "fl_mul a b =
     (case (fl_positive a, fl_positive b) of
        (Some s, Some t) \<Rightarrow> (if s = t then PInf else NInf)
      | _ \<Rightarrow> NaN)"

fun fl_less :: "npfloat \<Rightarrow> npfloat \<Rightarrow> bool" where
  "fl_less (Fin a) (Fin b) = (a < b)"
| "fl_less NInf (Fin _) = True"
| "fl_less NInf PInf = True"
| "fl_less (Fin _) PInf = True"
| "fl_less _ _ = False"

fun fl_le :: "npfloat \<Rightarrow> npfloat \<Rightarrow> bool" where
  "fl_le NaN _ = False"
| "fl_le _ NaN = False"
| "fl_le a b = (a = b \<or> fl_less a b)"

text \<open>
  \<open>np.min\<close> and \<open>np.max\<close>: a NaN anywhere in the array is the result; an empty array
  has no minimum and the reduction raises.
\<close>

datatype exc = TypeError string | ValueError string | IndexError string

definition fl_minimum :: "npfloat \<Rightarrow> npfloat \<Rightarrow> npfloat" where
  "fl_minimum a b = (if np_isnan a \<or> np_isnan b then NaN else if fl_less b a then b else a)"

definition fl_maximum :: "npfloat \<Rightarrow> npfloat \<Rightarrow> npfloat" where
  "fl_maximum a b = (if np_isnan a \<or> np_isnan b then NaN else if fl_less a b then b else a)"

fun np_min :: "npfloat list \<Rightarrow> exc + npfloat" where
  "np_min [] = Inl (ValueError ''zero-size array to reduction operation minimum which has no identity'')"
| "np_min (x # xs) = Inr (fold fl_minimum xs x)"

fun np_max :: "npfloat list \<Rightarrow> exc + npfloat" where
  "np_max [] = Inl (ValueError ''zero-size array to reduction operation maximum which has no identity'')"
| "np_max (x # xs) = Inr (fold fl_maximum xs x)"

text \<open>
  A NumPy integer (int64): 64 bits read as a signed number. Sums and differences wrap
  around. Minimum and maximum compare the signed values.
\<close>

type_synonym int64 = "64 word"

definition int_minimum :: "int64 \<Rightarrow> int64 \<Rightarrow> int64" where
  "int_minimum a b = (if sint b < sint a then b else a)"

definition int_maximum :: "int64 \<Rightarrow> int64 \<Rightarrow> int64" where
  "int_maximum a b = (if sint a < sint b then b else a)"

fun int_min :: "int64 list \<Rightarrow> exc + int64" where
  "int_min [] = Inl (ValueError ''zero-size array to reduction operation minimum which has no identity'')"
| "int_min (w # ws) = Inr (fold int_minimum ws w)"

fun int_max :: "int64 list \<Rightarrow> exc + int64" where
  "int_max [] = Inl (ValueError ''zero-size array to reduction operation maximum which has no identity'')"
| "int_max (w # ws) = Inr (fold int_maximum ws w)"

definition int_to_float :: "int64 \<Rightarrow> npfloat" where
  "int_to_float w = Fin (real_of_int (sint w))"

text \<open>
  A NumPy scalar, as \<open>np.min\<close> and \<open>np.max\<close> return it, has the dtype of its
  array. The difference of two integer scalars is an integer and wraps; a scalar meets a
  Python float as a float.
\<close>

datatype scalar = FloatS npfloat | IntS int64

fun sc_float :: "scalar \<Rightarrow> npfloat" where
  "sc_float (FloatS a) = a"
| "sc_float (IntS w) = int_to_float w"

fun sc_sub :: "scalar \<Rightarrow> scalar \<Rightarrow> scalar" where
  "sc_sub (IntS a) (IntS b) = IntS (a - b)"
| "sc_sub a b = FloatS (fl_sub (sc_float a) (sc_float b))"

fun sc_positive :: "scalar \<Rightarrow> bool" where
  "sc_positive (FloatS a) = fl_less (Fin 0) a"
| "sc_positive (IntS w) = (0 < sint w)"

text \<open>
  A one-dimensional array: of dtype float64, of dtype int64, or of a dtype
  \<open>np.isnan\<close> is not defined for (strings).
\<close>

datatype ndarray = NumArray "npfloat list" | IntArray "int64 list" | StrArray "string list"

fun arr_size :: "ndarray \<Rightarrow> nat" where
  "arr_size (NumArray xs) = length xs"
| "arr_size (IntArray ws) = length ws"
| "arr_size (StrArray ss) = length ss"

text \<open>
  A numeric array, float64 or int64, with its length, its values read as floats (as
  \<open>np.histogram\<close> reads them), its minimum and its maximum.
\<close>

datatype numeric = Float64 "npfloat list" | Int64 "int64 list"

fun num_len :: "numeric \<Rightarrow> nat" where
  "num_len (Float64 xs) = length xs"
| "num_len (Int64 ws) = length ws"

fun as_floats :: "numeric \<Rightarrow> npfloat list" where
  "as_floats (Float64 xs) = xs"
| "as_floats (Int64 ws) = map int_to_float ws"

fun arr_min :: "numeric \<Rightarrow> exc + scalar" where
  "arr_min (Float64 xs) = (case np_min xs of Inl e \<Rightarrow> Inl e | Inr m \<Rightarrow> Inr (FloatS m))"
| "arr_min (Int64 ws) = (case int_min ws of Inl e \<Rightarrow> Inl e | Inr m \<Rightarrow> Inr (IntS m))"

fun arr_max :: "numeric \<Rightarrow> exc + scalar" where
  "arr_max (Float64 xs) = (case np_max xs of Inl e \<Rightarrow> Inl e | Inr m \<Rightarrow> Inr (FloatS m))"
| "arr_max (Int64 ws) = (case int_max ws of Inl e \<Rightarrow> Inl e | Inr m \<Rightarrow> Inr (IntS m))"

text \<open>
  \<open>np.concatenate\<close>: of integer arrays an integer array, of arrays one of which is
  float a float array; it raises on no array at all.
\<close>

fun all_ints :: "numeric list \<Rightarrow> int64 list option" where
  "all_ints [] = Some []"
| "all_ints (Int64 ws # arrs) = (case all_ints arrs of None \<Rightarrow> None | Some vs \<Rightarrow> Some (ws @ vs))"
| "all_ints (Float64 _ # arrs) = None"

definition np_concatenate :: "numeric list \<Rightarrow> exc + numeric" where
  "np_concatenate arrs =
     (if arrs = [] then Inl (ValueError ''need at least one array to concatenate'')
      else (case all_ints arrs of
              Some ws \<Rightarrow> Inr (Int64 ws)
            | None \<Rightarrow> Inr (Float64 (concat (map as_floats arrs)))))"

text \<open>
  What a caller passes as data: a Python list or an array (\<open>np.asarray\<close> gives the
  array), a labelled array with a \<open>values\<close> attribute (a pandas Series), or an object
  \<open>np.asarray\<close> rejects with a message.
\<close>

datatype seq = PyList ndarray | NdArray ndarray

datatype array_like = Seq seq | Series ndarray | Unconvertible string

fun np_asarray :: "array_like \<Rightarrow> string + ndarray" where
  "np_asarray (Seq (PyList a)) = Inr a"
| "np_asarray (Seq (NdArray a)) = Inr a"
| "np_asarray (Series a) = Inr a"
| "np_asarray (Unconvertible m) = Inl m"

section \<open>utils.py\<close>

fun to_array :: "array_like \<Rightarrow> string + ndarray" where
  "to_array (Series a) = Inr a"
| "to_array d = np_asarray d"

text \<open>
  \<open>validate_data\<close>: the conversion is the only step inside the \<open>try\<close>; the size test
  and the NaN test follow it. \<open>np.isnan\<close> raises a TypeError of its own on an array
  that is not numeric, and is false of every integer. An array that passes is numeric,
  so the result is a numeric array.
\<close>

definition isnan_unsupported :: string where
  "isnan_unsupported = ''ufunc isnan not supported for the input types''"

definition validate_data :: "array_like \<Rightarrow> string \<Rightarrow> exc + numeric" where
  "validate_data d name =
     (case to_array d of
        Inl e \<Rightarrow> Inl (TypeError (''Could not convert '' @ name @ '' to array: '' @ e))
      | Inr arr \<Rightarrow>
          if arr_size arr = 0 then Inl (ValueError (name @ '' is empty''))
          else (case arr of
                  StrArray _ \<Rightarrow> Inl (TypeError isnan_unsupported)
                | IntArray ws \<Rightarrow> Inr (Int64 ws)
                | NumArray xs \<Rightarrow>
                    if list_all np_isnan xs
                    then Inl (ValueError (name @ '' contains only NaN values''))
                    else Inr (Float64 xs)))"

subsection \<open>NumPy's histogram\<close>

text \<open>
  The \<open>bins\<close> argument: a number of equal-width bins, the name of a bin-width
  estimator, or the bin edges themselves.
\<close>

datatype bins_spec = BinCount int | BinStrategy string | BinEdges "real list"

text \<open>
  The estimators NumPy knows by name. Each one is a heuristic of NumPy's own; the model
  takes them as a table from the name to the number of equal-width bins the estimator
  settles on for the (finite, non-empty) data, \<open>None\<close> for a name NumPy does not know.
\<close>

type_synonym bin_selectors = "string \<Rightarrow> (real list \<Rightarrow> nat) option"

fun finite_part :: "npfloat list \<Rightarrow> real list" where
  "finite_part [] = []"
| "finite_part (Fin r # xs) = r # finite_part xs"
| "finite_part (_ # xs) = finite_part xs"

text \<open>
  The range of the equal-width bins: that of the data, which must be finite; \<open>(0, 1)\<close>
  for no data; widened by a half on each side when it is a single point.
\<close>

definition get_outer_edges :: "npfloat list \<Rightarrow> exc + real \<times> real" where
  "get_outer_edges a =
     (if a = [] then Inr (0, 1)
      else (case (np_min a, np_max a) of
              (Inr (Fin first_edge), Inr (Fin last_edge)) \<Rightarrow>
                if first_edge = last_edge then Inr (first_edge - 1 / 2, last_edge + 1 / 2)
                else Inr (first_edge, last_edge)
            | _ \<Rightarrow> Inl (ValueError ''autodetected range is not finite'')))"

text \<open>\<open>np.linspace first last (n + 1)\<close>: the \<open>n + 1\<close> edges of \<open>n\<close> equal bins.\<close>

definition np_linspace :: "real \<Rightarrow> real \<Rightarrow> nat \<Rightarrow> real list" where
  "np_linspace first_edge last_edge n =
     (if n = 0 then [first_edge]
      else map (\<lambda>i. first_edge + (last_edge - first_edge) * real i / real n) [0..<Suc n])"

text \<open>
  The counts: every bin is closed on the left and open on the right, but the last one,
  which is closed on both sides. A value outside all bins, and a NaN, is counted nowhere.
\<close>

fun bin_counts :: "real list \<Rightarrow> npfloat list \<Rightarrow> nat list" where
  "bin_counts (e0 # e1 # e2 # es) a =
     length (filter (\<lambda>x. fl_le (Fin e0) x \<and> fl_less x (Fin e1)) a) # bin_counts (e1 # e2 # es) a"
| "bin_counts [e0, e1] a = [length (filter (\<lambda>x. fl_le (Fin e0) x \<and> fl_le x (Fin e1)) a)]"
| "bin_counts _ a = []"

text \<open>
  \<open>np.histogram(a, bins)\<close>, which the package calls and does not define: the model
  follows NumPy's documentation of it. An estimator name NumPy does not know, a bin count
  below one, edges that decrease, and (for equal-width bins) data whose range is not
  finite raise a ValueError. The result is the counts and the edges; edges given by the
  caller are returned as they are, also when there are fewer than two of them.
\<close>

definition np_histogram ::
  "bin_selectors \<Rightarrow> npfloat list \<Rightarrow> bins_spec \<Rightarrow> exc + nat list \<times> real list" where
  "np_histogram sel a bins =
     (case bins of
        BinStrategy name \<Rightarrow>
          (case sel name of
             None \<Rightarrow> Inl (ValueError (name @ '' is not a valid estimator for bins''))
           | Some estimator \<Rightarrow>
               (case get_outer_edges a of
                  Inl e \<Rightarrow> Inl e
                | Inr (first_edge, last_edge) \<Rightarrow>
                    let n_equal_bins = (if a = [] then 1 else estimator (finite_part a));
                        bin_edges = np_linspace first_edge last_edge n_equal_bins
                    in Inr (bin_counts bin_edges a, bin_edges)))
      | BinCount n \<Rightarrow>
          if n < 1 then Inl (ValueError ''bins must be positive, when an integer'')
          else (case get_outer_edges a of
                  Inl e \<Rightarrow> Inl e
                | Inr (first_edge, last_edge) \<Rightarrow>
                    let bin_edges = np_linspace first_edge last_edge (nat n)
                    in Inr (bin_counts bin_edges a, bin_edges))
      | BinEdges bin_edges \<Rightarrow>
          if \<not> sorted bin_edges
          then Inl (ValueError ''bins must increase monotonically, when an array'')
          else Inr (bin_counts bin_edges a, bin_edges))"

subsection \<open>normalize_to_percentage\<close>

definition normalize_to_percentage ::
  "bin_selectors \<Rightarrow> npfloat list \<Rightarrow> bins_spec \<Rightarrow> exc + real list \<times> real list" where
  "normalize_to_percentage sel data bins =
     (case np_histogram sel data bins of
        Inl e \<Rightarrow> Inl e
      | Inr (counts, bin_edges) \<Rightarrow>
          let total = sum_list counts in
          if total > 0
          then Inr (map (\<lambda>c. (real c / real total) * 100) counts, bin_edges)
          else Inr (map real counts, bin_edges))"

section \<open>The Matplotlib objects the package configures\<close>

text \<open>
  Rendering is Matplotlib's. The model keeps, for a figure and an axes, what the package
  asks of them: the artists drawn, the display limits and spine bounds set, the styling.
  A display limit that was never set is \<open>None\<close>: Matplotlib's autoscaling decides it.
  \<open>set_xlim\<close> and \<open>set_ylim\<close> with both limits raise a ValueError when a limit is
  NaN or infinite, and change nothing then. Drawing and autoscaling are outside the model.
\<close>

record figure =
  fig_num :: nat
  fig_size :: "real \<times> real"

datatype artist =
    Bar "real list" "real list" real string "real option"
  | BarH "real list" "real list" real string "real option"
  | Line2D numeric numeric string bool "string option"
  | PathCollection numeric numeric real string real

record axes =
  ax_figure :: figure
  subplot_cell :: "nat \<times> nat"
  share_x :: bool
  share_y :: bool
  artists :: "artist list"
  xlim :: "npfloat option \<times> npfloat option"
  ylim :: "npfloat option \<times> npfloat option"
  top_visible :: bool
  right_visible :: bool
  left_visible :: bool
  bottom_visible :: bool
  bottom_bounds :: "(npfloat \<times> npfloat) option"
  left_bounds :: "(npfloat \<times> npfloat) option"
  x_major_nbins :: "nat option"
  y_major_nbins :: "nat option"
  major_ticks :: "(real \<times> real \<times> real) option"
  minor_tick_length :: "real option"
  ax_title :: "string option"
  ax_xlabel :: "string option"
  ax_ylabel :: "string option"
  legend_drawn :: bool
  x_ticks_removed :: bool
  y_ticks_removed :: bool
  label_bottom :: bool
  label_left :: bool

text \<open>A fresh axes of a figure, as \<open>plt.subplots\<close> and \<open>fig.add_subplot\<close> create it.\<close>

definition new_axes :: "figure \<Rightarrow> nat \<times> nat \<Rightarrow> bool \<Rightarrow> bool \<Rightarrow> axes" where
  "new_axes fig cell sx sy =
     \<lparr>ax_figure = fig, subplot_cell = cell, share_x = sx, share_y = sy, artists = [],
      xlim = (None, None), ylim = (None, None),
      top_visible = True, right_visible = True, left_visible = True, bottom_visible = True,
      bottom_bounds = None, left_bounds = None,
      x_major_nbins = None, y_major_nbins = None, major_ticks = None, minor_tick_length = None,
      ax_title = None, ax_xlabel = None, ax_ylabel = None, legend_drawn = False,
      x_ticks_removed = False, y_ticks_removed = False, label_bottom = True, label_left = True\<rparr>"

text \<open>The state of \<open>pyplot\<close>: the number of figures created so far.\<close>

type_synonym pyplot = nat

definition plt_figure :: "real \<times> real \<Rightarrow> pyplot \<Rightarrow> figure \<times> pyplot" where
  "plt_figure figsize st = (\<lparr>fig_num = st, fig_size = figsize\<rparr>, Suc st)"

definition plt_subplots :: "real \<times> real \<Rightarrow> pyplot \<Rightarrow> (figure \<times> axes) \<times> pyplot" where
  "plt_subplots figsize st =
     (case plt_figure figsize st of (fig, st') \<Rightarrow> ((fig, new_axes fig (0, 0) False False), st'))"

definition limits_not_finite :: exc where
  "limits_not_finite = ValueError ''Axis limits cannot be NaN or Inf''"

definition set_xlim :: "npfloat \<Rightarrow> npfloat \<Rightarrow> axes \<Rightarrow> exc + axes" where
  "set_xlim lo hi ax =
     (if np_isfinite lo \<and> np_isfinite hi then Inr (ax\<lparr>xlim := (Some lo, Some hi)\<rparr>)
      else Inl limits_not_finite)"

definition set_ylim :: "npfloat \<Rightarrow> npfloat \<Rightarrow> axes \<Rightarrow> exc + axes" where
  "set_ylim lo hi ax =
     (if np_isfinite lo \<and> np_isfinite hi then Inr (ax\<lparr>ylim := (Some lo, Some hi)\<rparr>)
      else Inl limits_not_finite)"

definition set_xlim_left :: "npfloat \<Rightarrow> axes \<Rightarrow> axes" where
  "set_xlim_left lo ax = ax\<lparr>xlim := (Some lo, snd (xlim ax))\<rparr>"

definition set_ylim_bottom :: "npfloat \<Rightarrow> axes \<Rightarrow> axes" where
  "set_ylim_bottom lo ax = ax\<lparr>ylim := (Some lo, snd (ylim ax))\<rparr>"

definition add_artist :: "artist \<Rightarrow> axes \<Rightarrow> axes" where
  "add_artist a ax = ax\<lparr>artists := artists ax @ [a]\<rparr>"

section \<open>styles.py\<close>

definition GRAYSCALE_PALETTE :: "string list" where
  "GRAYSCALE_PALETTE = [''#000000'', ''#666666'', ''#999999'', ''#CCCCCC'']"

definition TUFTE_COLORS_primary :: string where
  "TUFTE_COLORS_primary = ''#000000''"

definition FIGURE_SIZES_default :: "real \<times> real" where
  "FIGURE_SIZES_default = (8, 5)"

definition FIGURE_SIZES_square :: "real \<times> real" where
  "FIGURE_SIZES_square = (8, 8)"

definition TICK_STYLES_length :: real where
  "TICK_STYLES_length = 4"

definition TICK_STYLES_width :: real where
  "TICK_STYLES_width = 3 / 4"

definition TICK_STYLES_max_ticks :: nat where
  "TICK_STYLES_max_ticks = 7"

definition TUFTE_FONTS_tick_size :: real where
  "TUFTE_FONTS_tick_size = 9"

definition LINE_STYLES_data_width :: real where
  "LINE_STYLES_data_width = 3 / 2"

definition MARKER_STYLES_alpha :: real where
  "MARKER_STYLES_alpha = 6 / 10"

definition MARKER_STYLES_size :: real where
  "MARKER_STYLES_size = 30"

section \<open>utils.py: styling\<close>

definition despine :: "axes \<Rightarrow> bool \<Rightarrow> bool \<Rightarrow> bool \<Rightarrow> bool \<Rightarrow> axes" where
  "despine ax rm_top rm_right rm_left rm_bottom =
     (let ax1 = (if rm_top then ax\<lparr>top_visible := False\<rparr> else ax);
          ax2 = (if rm_right then ax1\<lparr>right_visible := False\<rparr> else ax1);
          ax3 = (if rm_left then ax2\<lparr>left_visible := False\<rparr> else ax2)
      in if rm_bottom then ax3\<lparr>bottom_visible := False\<rparr> else ax3)"

text \<open>
  \<open>range_frame\<close>, one axis at a time as the source has it: nothing for an axis whose data
  is \<open>None\<close>; else the limits, padded by the fraction of the range or by the fixed half
  unit, and then the spine bounds at the data's own minimum and maximum. The range is the
  difference of two NumPy scalars: of an integer array it is an integer, and wraps. When
  \<open>set_xlim\<close> raises, the spine bounds are not set.
\<close>

definition range_frame_x :: "axes \<Rightarrow> numeric option \<Rightarrow> npfloat \<Rightarrow> exc + axes" where
  "range_frame_x ax x_data x_padding =
     (case x_data of
        None \<Rightarrow> Inr ax
      | Some arr \<Rightarrow>
          (case arr_min arr of
             Inl e \<Rightarrow> Inl e
           | Inr x_min \<Rightarrow>
               (case arr_max arr of
                  Inl e \<Rightarrow> Inl e
                | Inr x_max \<Rightarrow>
                    let x_range = sc_sub x_max x_min in
                    if sc_positive x_range
                    then (case set_xlim (fl_sub (sc_float x_min) (fl_mul x_padding (sc_float x_range)))
                                        (fl_add (sc_float x_max) (fl_mul x_padding (sc_float x_range))) ax of
                            Inl e \<Rightarrow> Inl e
                          | Inr ax1 \<Rightarrow> Inr (ax1\<lparr>bottom_bounds := Some (sc_float x_min, sc_float x_max)\<rparr>))
                    else (case set_xlim (fl_sub (sc_float x_min) (Fin (1 / 2)))
                                        (fl_add (sc_float x_max) (Fin (1 / 2))) ax of
                            Inl e \<Rightarrow> Inl e
                          | Inr ax1 \<Rightarrow> Inr (ax1\<lparr>bottom_bounds := Some (sc_float x_min, sc_float x_max)\<rparr>)))))"

definition range_frame_y :: "axes \<Rightarrow> numeric option \<Rightarrow> npfloat \<Rightarrow> exc + axes" where
  "range_frame_y ax y_data y_padding =
     (case y_data of
        None \<Rightarrow> Inr ax
      | Some arr \<Rightarrow>
          (case arr_min arr of
             Inl e \<Rightarrow> Inl e
           | Inr y_min \<Rightarrow>
               (case arr_max arr of
                  Inl e \<Rightarrow> Inl e
                | Inr y_max \<Rightarrow>
                    let y_range = sc_sub y_max y_min in
                    if sc_positive y_range
                    then (case set_ylim (fl_sub (sc_float y_min) (fl_mul y_padding (sc_float y_range)))
                                        (fl_add (sc_float y_max) (fl_mul y_padding (sc_float y_range))) ax of
                            Inl e \<Rightarrow> Inl e
                          | Inr ax1 \<Rightarrow> Inr (ax1\<lparr>left_bounds := Some (sc_float y_min, sc_float y_max)\<rparr>))
                    else (case set_ylim (fl_sub (sc_float y_min) (Fin (1 / 2)))
                                        (fl_add (sc_float y_max) (Fin (1 / 2))) ax of
                            Inl e \<Rightarrow> Inl e
                          | Inr ax1 \<Rightarrow> Inr (ax1\<lparr>left_bounds := Some (sc_float y_min, sc_float y_max)\<rparr>)))))"

definition range_frame ::
  "axes \<Rightarrow> numeric option \<Rightarrow> numeric option \<Rightarrow> npfloat \<Rightarrow> npfloat \<Rightarrow> exc + axes" where
  "range_frame ax x_data y_data x_padding y_padding =
     (case range_frame_x ax x_data x_padding of
        Inl e \<Rightarrow> Inl e
      | Inr ax' \<Rightarrow> range_frame_y ax' y_data y_padding)"

text \<open>The default padding of both axes, two per cent.\<close>

definition default_padding :: npfloat where
  "default_padding = Fin (2 / 100)"

definition minimal_ticks :: "axes \<Rightarrow> nat \<Rightarrow> axes" where
  "minimal_ticks ax max_ticks = ax\<lparr>x_major_nbins := Some max_ticks, y_major_nbins := Some max_ticks\<rparr>"

definition set_tufte_style :: "axes \<Rightarrow> axes" where
  "set_tufte_style ax =
     (let ax1 = despine ax True True False False;
          ax2 = minimal_ticks ax1 TICK_STYLES_max_ticks;
          ax3 = ax2\<lparr>major_ticks := Some (TICK_STYLES_length, TICK_STYLES_width, TUFTE_FONTS_tick_size)\<rparr>
      in ax3\<lparr>minor_tick_length := Some 0\<rparr>)"

definition create_figure_and_axes ::
  "real \<times> real \<Rightarrow> axes option \<Rightarrow> pyplot \<Rightarrow> (figure \<times> axes) \<times> pyplot" where
  "create_figure_and_axes figsize ax st =
     (case ax of
        None \<Rightarrow> plt_subplots figsize st
      | Some ax' \<Rightarrow> ((ax_figure ax', ax'), st))"

text \<open>Python's truth of an optional string: \<open>None\<close> and the empty string are false.\<close>

fun truthy :: "string option \<Rightarrow> bool" where
  "truthy None = False"
| "truthy (Some s) = (s \<noteq> [])"

section \<open>core.py\<close>

subsection \<open>histogram\<close>

text \<open>
  Every entry point takes the state of \<open>pyplot\<close> and returns it with its result: the
  figure and axes, or the exception raised. \<open>np.histogram\<close> reads an integer array by
  its values. \<open>bin_edges[1]\<close> raises an IndexError when there are fewer than two edges.
\<close>

definition histogram ::
  "bin_selectors \<Rightarrow> array_like \<Rightarrow> bins_spec \<Rightarrow> string option \<Rightarrow> string option \<Rightarrow> string \<Rightarrow>
   real \<times> real \<Rightarrow> axes option \<Rightarrow> string \<Rightarrow> pyplot \<Rightarrow> (exc + figure \<times> axes) \<times> pyplot" where
  "histogram sel data bins title xlabel ylabel figsize ax color st =
     (case validate_data data ''data'' of
        Inl e \<Rightarrow> (Inl e, st)
      | Inr data_array \<Rightarrow>
          (case create_figure_and_axes figsize ax st of
             ((fig, ax0), st') \<Rightarrow>
               (case normalize_to_percentage sel (as_floats data_array) bins of
                  Inl e \<Rightarrow> (Inl e, st')
                | Inr (percentages, bin_edges) \<Rightarrow>
                    (case bin_edges of
                       e0 # e1 # _ \<Rightarrow>
                         let bin_width = e1 - e0;
                             ax1 = add_artist (Bar (butlast bin_edges) percentages bin_width color None) ax0;
                             ax2 = set_tufte_style ax1;
                             ax3 = (if truthy title then ax2\<lparr>ax_title := title\<rparr> else ax2);
                             ax4 = (if truthy xlabel then ax3\<lparr>ax_xlabel := xlabel\<rparr> else ax3);
                             ax5 = ax4\<lparr>ax_ylabel := Some ylabel\<rparr>
                         in (case range_frame ax5 (Some data_array) None default_padding default_padding of
                               Inl e \<Rightarrow> (Inl e, st')
                             | Inr ax6 \<Rightarrow> (Inr (fig, set_ylim_bottom (Fin 0) ax6), st'))
                     | _ \<Rightarrow> (Inl (IndexError ''index 1 is out of bounds''), st')))))"

subsection \<open>line\<close>

text \<open>
  The \<open>y\<close> argument: one array-like, or a Python list whose elements are lists or
  arrays, one per series. The empty Python list is \<open>YList []\<close>.
\<close>

datatype y_arg = YSingle array_like | YList "seq list"

datatype labels_arg = LabelStr string | LabelList "string list"

definition digit_char :: "nat \<Rightarrow> char" where
  "digit_char d = ''0123456789'' ! d"

function str_of_nat :: "nat \<Rightarrow> string" where
  "str_of_nat n = (if n < 10 then [digit_char n] else str_of_nat (n div 10) @ [digit_char (n mod 10)])"
  by pat_completeness auto
termination
  by (relation "measure id") auto

declare str_of_nat.simps [simp del]

text \<open>The comprehension \<open>[validate_data(y_i, f"y[{i}]") for i, y_i in enumerate(y)]\<close>.\<close>

fun validate_each :: "seq list \<Rightarrow> nat \<Rightarrow> exc + numeric list" where
  "validate_each [] i = Inr []"
| "validate_each (y_i # ys) i =
     (case validate_data (Seq y_i) (''y['' @ str_of_nat i @ '']'') of
        Inl e \<Rightarrow> Inl e
      | Inr a \<Rightarrow>
          (case validate_each ys (Suc i) of
             Inl e \<Rightarrow> Inl e
           | Inr as \<Rightarrow> Inr (a # as)))"

definition validate_y :: "y_arg \<Rightarrow> exc + numeric list" where
  "validate_y y =
     (case y of
        YList (y0 # ys) \<Rightarrow> validate_each (y0 # ys) 0
      | YList [] \<Rightarrow>
          (case validate_data (Seq (PyList (NumArray []))) ''y'' of
             Inl e \<Rightarrow> Inl e
           | Inr a \<Rightarrow> Inr [a])
      | YSingle d \<Rightarrow>
          (case validate_data d ''y'' of
             Inl e \<Rightarrow> Inl e
           | Inr a \<Rightarrow> Inr [a]))"

text \<open>The loop that compares the length of every series with that of \<open>x\<close>.\<close>

fun check_lengths :: "numeric list \<Rightarrow> nat \<Rightarrow> nat \<Rightarrow> exc option" where
  "check_lengths [] i n = None"
| "check_lengths (y_arr # ys) i n =
     (if num_len y_arr \<noteq> n
      then Some (ValueError (''x and y['' @ str_of_nat i @ ''] must have the same length''))
      else check_lengths ys (Suc i) n)"

text \<open>Python's slice \<open>xs[a:b]\<close> for indices that are not negative.\<close>

definition slice :: "'a list \<Rightarrow> nat \<Rightarrow> nat \<Rightarrow> 'a list" where
  "slice xs a b = drop a (take b xs)"

definition line_colors :: "string list option \<Rightarrow> nat \<Rightarrow> string list" where
  "line_colors colors n =
     (case colors of
        None \<Rightarrow> slice GRAYSCALE_PALETTE 0 n
      | Some cs \<Rightarrow>
          if length cs < n then cs @ slice GRAYSCALE_PALETTE (length cs) n
          else cs)"

function ensure_labels :: "string option list \<Rightarrow> nat \<Rightarrow> string option list" where
  "ensure_labels label_list n =
     (if length label_list < n then ensure_labels (label_list @ [None]) n else label_list)"
  by pat_completeness auto
termination
  by (relation "measure (\<lambda>(label_list, n). n - length label_list)") auto

declare ensure_labels.simps [simp del]

definition line_labels :: "labels_arg option \<Rightarrow> nat \<Rightarrow> string option list" where
  "line_labels labels n =
     ensure_labels
       (case labels of
          None \<Rightarrow> replicate n None
        | Some (LabelStr l) \<Rightarrow> [Some l]
        | Some (LabelList ls) \<Rightarrow> map Some ls)
       n"

text \<open>
  The plotting loop runs over \<open>zip(y_arrays, colors, label_list)\<close>, which stops with
  the shortest of the three.
\<close>

definition plot_lines ::
  "numeric \<Rightarrow> bool \<Rightarrow> numeric list \<Rightarrow> string list \<Rightarrow> string option list \<Rightarrow> axes \<Rightarrow> axes" where
  "plot_lines x_array markers y_arrays colors label_list ax =
     fold (\<lambda>(y_arr, color, label). add_artist (Line2D x_array y_arr color markers label))
          (zip y_arrays (zip colors label_list)) ax"

definition line ::
  "array_like \<Rightarrow> y_arg \<Rightarrow> labels_arg option \<Rightarrow> string option \<Rightarrow> string option \<Rightarrow> string option \<Rightarrow>
   real \<times> real \<Rightarrow> bool \<Rightarrow> axes option \<Rightarrow> string list option \<Rightarrow> pyplot \<Rightarrow>
   (exc + figure \<times> axes) \<times> pyplot" where
  "line x y labels title xlabel ylabel figsize markers ax colors st =
     (case validate_data x ''x'' of
        Inl e \<Rightarrow> (Inl e, st)
      | Inr x_array \<Rightarrow>
          (case validate_y y of
             Inl e \<Rightarrow> (Inl e, st)
           | Inr y_arrays \<Rightarrow>
               (case check_lengths y_arrays 0 (num_len x_array) of
                  Some e \<Rightarrow> (Inl e, st)
                | None \<Rightarrow>
                    (case create_figure_and_axes figsize ax st of
                       ((fig, ax0), st') \<Rightarrow>
                         let colors' = line_colors colors (length y_arrays);
                             label_list = line_labels labels (length y_arrays);
                             ax1 = plot_lines x_array markers y_arrays colors' label_list ax0;
                             ax2 = set_tufte_style ax1;
                             ax3 = (if truthy title then ax2\<lparr>ax_title := title\<rparr> else ax2);
                             ax4 = (if truthy xlabel then ax3\<lparr>ax_xlabel := xlabel\<rparr> else ax3);
                             ax5 = (if truthy ylabel then ax4\<lparr>ax_ylabel := ylabel\<rparr> else ax4)
                         in (case np_concatenate y_arrays of
                               Inl e \<Rightarrow> (Inl e, st')
                             | Inr all_y \<Rightarrow>
                                 (case range_frame ax5 (Some x_array) (Some all_y)
                                         default_padding default_padding of
                                    Inl e \<Rightarrow> (Inl e, st')
                                  | Inr ax6 \<Rightarrow>
                                      (Inr (fig, if list_ex (\<lambda>label. label \<noteq> None) label_list
                                                 then ax6\<lparr>legend_drawn := True\<rparr> else ax6), st')))))))"

subsection \<open>scatter\<close>

definition scatter_basic ::
  "numeric \<Rightarrow> numeric \<Rightarrow> string option \<Rightarrow> string option \<Rightarrow> string option \<Rightarrow>
   real \<times> real \<Rightarrow> string \<Rightarrow> real \<Rightarrow> real \<Rightarrow> axes option \<Rightarrow> pyplot \<Rightarrow>
   (exc + figure \<times> axes) \<times> pyplot" where
  "scatter_basic x_array y_array title xlabel ylabel figsize color alpha sz ax st =
     (case create_figure_and_axes figsize ax st of
        ((fig, ax0), st') \<Rightarrow>
          let ax1 = add_artist (PathCollection x_array y_array sz color alpha) ax0;
              ax2 = set_tufte_style ax1;
              ax3 = (if truthy title then ax2\<lparr>ax_title := title\<rparr> else ax2);
              ax4 = (if truthy xlabel then ax3\<lparr>ax_xlabel := xlabel\<rparr> else ax3);
              ax5 = (if truthy ylabel then ax4\<lparr>ax_ylabel := ylabel\<rparr> else ax4)
          in (case range_frame ax5 (Some x_array) (Some y_array) default_padding default_padding of
                Inl e \<Rightarrow> (Inl e, st')
              | Inr ax6 \<Rightarrow> (Inr (fig, ax6), st')))"

text \<open>The styling of a marginal axes: no spine, no ticks across, no tick labels along.\<close>

definition hide_spines :: "axes \<Rightarrow> axes" where
  "hide_spines ax =
     ax\<lparr>top_visible := False, right_visible := False, left_visible := False, bottom_visible := False\<rparr>"

definition scatter_with_marginals ::
  "bin_selectors \<Rightarrow> numeric \<Rightarrow> numeric \<Rightarrow> string option \<Rightarrow> string option \<Rightarrow> string option \<Rightarrow>
   real \<times> real \<Rightarrow> string \<Rightarrow> real \<Rightarrow> real \<Rightarrow> pyplot \<Rightarrow>
   (exc + figure \<times> (string \<times> axes) list) \<times> pyplot" where
  "scatter_with_marginals sel x_array y_array title xlabel ylabel figsize color alpha sz st =
     (case plt_figure figsize st of
        (fig, st') \<Rightarrow>
          let ax_main0 = new_axes fig (1, 0) False False;
              ax_top0 = new_axes fig (0, 0) True False;
              ax_right0 = new_axes fig (1, 1) False True;
              ax_main1 = add_artist (PathCollection x_array y_array sz color alpha) ax_main0
          in (case normalize_to_percentage sel (as_floats x_array) (BinStrategy ''auto'') of
                Inl e \<Rightarrow> (Inl e, st')
              | Inr (percentages_x, bin_edges_x) \<Rightarrow>
                  (case bin_edges_x of
                     ex0 # ex1 # _ \<Rightarrow>
                       let bin_width_x = ex1 - ex0;
                           ax_top1 = add_artist (Bar (butlast bin_edges_x) percentages_x bin_width_x
                                                   color (Some (7 / 10))) ax_top0
                       in (case normalize_to_percentage sel (as_floats y_array) (BinStrategy ''auto'') of
                             Inl e \<Rightarrow> (Inl e, st')
                           | Inr (percentages_y, bin_edges_y) \<Rightarrow>
                               (case bin_edges_y of
                                  ey0 # ey1 # _ \<Rightarrow>
                                    let bin_width_y = ey1 - ey0;
                                        ax_right1 = add_artist (BarH (butlast bin_edges_y) percentages_y
                                                      bin_width_y color (Some (7 / 10))) ax_right0;
                                        ax_main2 = set_tufte_style ax_main1
                                    in (case range_frame ax_main2 (Some x_array) (Some y_array)
                                               default_padding default_padding of
                                          Inl e \<Rightarrow> (Inl e, st')
                                        | Inr ax_main3 \<Rightarrow>
                                            let ax_top2 = (hide_spines ax_top1)
                                                            \<lparr>y_ticks_removed := True, label_bottom := False\<rparr>;
                                                ax_right2 = (hide_spines ax_right1)
                                                            \<lparr>x_ticks_removed := True, label_left := False\<rparr>;
                                                ax_top3 = set_ylim_bottom (Fin 0) ax_top2;
                                                ax_right3 = set_xlim_left (Fin 0) ax_right2;
                                                ax_main4 = (if truthy xlabel then ax_main3\<lparr>ax_xlabel := xlabel\<rparr>
                                                            else ax_main3);
                                                ax_main5 = (if truthy ylabel then ax_main4\<lparr>ax_ylabel := ylabel\<rparr>
                                                            else ax_main4);
                                                ax_top4 = (if truthy title then ax_top3\<lparr>ax_title := title\<rparr>
                                                           else ax_top3)
                                            in (Inr (fig, [(''main'', ax_main5), (''top'', ax_top4),
                                                           (''right'', ax_right3)]), st'))
                                | _ \<Rightarrow> (Inl (IndexError ''index 1 is out of bounds''), st')))
                   | _ \<Rightarrow> (Inl (IndexError ''index 1 is out of bounds''), st'))))"

datatype scatter_result = Plain figure axes | Marginals figure "(string \<times> axes) list"

definition scatter ::
  "bin_selectors \<Rightarrow> array_like \<Rightarrow> array_like \<Rightarrow> bool \<Rightarrow> string option \<Rightarrow> string option \<Rightarrow>
   string option \<Rightarrow> (real \<times> real) option \<Rightarrow> string \<Rightarrow> real \<Rightarrow> real \<Rightarrow> axes option \<Rightarrow> pyplot \<Rightarrow>
   (exc + scatter_result) \<times> pyplot" where
  "scatter sel x y marginals title xlabel ylabel figsize color alpha sz ax st =
     (case validate_data x ''x'' of
        Inl e \<Rightarrow> (Inl e, st)
      | Inr x_array \<Rightarrow>
          (case validate_data y ''y'' of
             Inl e \<Rightarrow> (Inl e, st)
           | Inr y_array \<Rightarrow>
               if num_len x_array \<noteq> num_len y_array
               then (Inl (ValueError ''x and y must have the same length''), st)
               else
                 let figsize' = (case figsize of
                                   None \<Rightarrow> (if marginals then FIGURE_SIZES_square else FIGURE_SIZES_default)
                                 | Some fs \<Rightarrow> fs)
                 in if marginals
                    then (case scatter_with_marginals sel x_array y_array title xlabel ylabel
                                 figsize' color alpha sz st of
                            (Inl e, st') \<Rightarrow> (Inl e, st')
                          | (Inr (fig, axes_dict), st') \<Rightarrow> (Inr (Marginals fig axes_dict), st'))
                    else (case scatter_basic x_array y_array title xlabel ylabel
                                 figsize' color alpha sz ax st of
                            (Inl e, st') \<Rightarrow> (Inl e, st')
                          | (Inr (fig, ax'), st') \<Rightarrow> (Inr (Plain fig ax'), st'))))"

section \<open>The percentage normalizer\<close>

lemma length_bin_counts: "length (bin_counts es a) = length es - 1"
  by (induction es a rule: bin_counts.induct) auto

lemma length_np_linspace: "length (np_linspace lo hi n) = Suc n"
  by (simp add: np_linspace_def)

lemma np_histogram_lengths:
  assumes "np_histogram sel a bins = Inr (counts, edges)"
  shows "length counts = length edges - 1" and "bins \<noteq> BinEdges [] \<Longrightarrow> edges \<noteq> []"
  using assms
  by (auto simp: np_histogram_def Let_def length_bin_counts np_linspace_def
      split: bins_spec.splits option.splits sum.splits if_splits prod.splits)

lemma normalize_to_percentage_Inr:
  assumes "normalize_to_percentage sel data bins = Inr (ps, edges)"
  shows "\<exists>counts. np_histogram sel data bins = Inr (counts, edges) \<and> length ps = length counts"
  using assms
  by (auto simp: normalize_to_percentage_def Let_def split: sum.splits prod.splits if_splits)

lemma normalize_unfold:
  assumes "np_histogram sel data bins = Inr (counts, bin_edges)" and "t = sum_list counts"
  shows "normalize_to_percentage sel data bins =
         (if 0 < t then Inr (map (\<lambda>c. (real c / real t) * 100) counts, bin_edges)
          else Inr (map real counts, bin_edges))"
  unfolding normalize_to_percentage_def assms(1) assms(2) by (simp add: Let_def)

lemma sum_list_zero_nat: "sum_list (cs :: nat list) = 0 \<Longrightarrow> map real cs = replicate (length cs) 0"
  by (induction cs) auto

lemma sum_list_scaled: "sum_list (map (\<lambda>c. (real c / t) * k) cs) = (real (sum_list cs) / t) * k"
  by (induction cs) (simp_all add: add_divide_distrib distrib_right)

lemma sum_percent:
  assumes "0 < sum_list (counts :: nat list)"
  shows "sum_list (map (\<lambda>c. (real c / real (sum_list counts)) * 100) counts) = 100"
proof -
  define t where "t = sum_list counts"
  have "0 < t" using assms t_def by simp
  then have "(real t / real t) * 100 = (100::real)" by simp
  then show ?thesis unfolding sum_list_scaled t_def .
qed

text \<open>
  C4. When the counts that \<open>np.histogram\<close> returns sum to zero, \<open>normalize_to_percentage\<close>
  returns (it raises nothing) a percentage of zero for every bin, with the edges
  unchanged: the division is in the other branch, under \<open>total > 0\<close>.
\<close>

theorem zero_total_gives_zero_percentages:
  assumes "np_histogram sel data bins = Inr (counts, bin_edges)" and "sum_list counts = 0"
  shows "normalize_to_percentage sel data bins = Inr (replicate (length counts) 0, bin_edges)"
proof -
  have "map real counts = replicate (length counts) 0"
    using assms(2) by (rule sum_list_zero_nat)
  moreover have "normalize_to_percentage sel data bins = Inr (map real counts, bin_edges)"
    using normalize_unfold[OF assms(1), of 0] assms(2) by (simp del: sum_list_eq_0_iff)
  ultimately show ?thesis by simp
qed

text \<open>
  The sample \<open>[1, 2, 3]\<close> with the bins \<open>[10, 20)\<close> and \<open>[20, 30]\<close>, and the empty
  sample with two bins: no value is counted, both percentages are zero.
\<close>

theorem zero_total_gives_zero_percentages_witness:
  "np_histogram (\<lambda>_. None) [Fin 1, Fin 2, Fin 3] (BinEdges [10, 20, 30]) = Inr ([0, 0], [10, 20, 30])
   \<and> sum_list [0, 0 :: nat] = 0
   \<and> normalize_to_percentage (\<lambda>_. None) [Fin 1, Fin 2, Fin 3] (BinEdges [10, 20, 30])
       = Inr ([0, 0], [10, 20, 30])"
proof -
  have h: "np_histogram (\<lambda>_. None) [Fin 1, Fin 2, Fin 3] (BinEdges [10, 20, 30]) = Inr ([0, 0], [10, 20, 30])"
    by (simp add: np_histogram_def)
  have z: "sum_list [0, 0 :: nat] = 0" by simp
  from zero_total_gives_zero_percentages[OF h z] h z show ?thesis by simp
qed

text \<open>
  C7. In the pair \<open>normalize_to_percentage\<close> returns, the edges are one more than the
  percentages, for every sample and every bin specification but the empty sequence of
  edges; for that one, whatever the sample, it returns no percentage and no edge.
\<close>

theorem edges_one_more_than_percentages:
  "(normalize_to_percentage sel data bins = Inr (percentages, bin_edges) \<and> bins \<noteq> BinEdges [] \<longrightarrow>
      length bin_edges = length percentages + 1)
   \<and> normalize_to_percentage sel data (BinEdges []) = Inr ([], [])"
proof (intro conjI impI)
  assume a: "normalize_to_percentage sel data bins = Inr (percentages, bin_edges) \<and> bins \<noteq> BinEdges []"
  then obtain counts where h: "np_histogram sel data bins = Inr (counts, bin_edges)"
    and l: "length percentages = length counts"
    using normalize_to_percentage_Inr by blast
  from np_histogram_lengths[OF h] a
  have "length counts = length bin_edges - 1" "bin_edges \<noteq> []"
    by auto
  then show "length bin_edges = length percentages + 1" using l by (cases bin_edges) auto
next
  show "normalize_to_percentage sel data (BinEdges []) = Inr ([], [])"
    by (simp add: normalize_to_percentage_def np_histogram_def)
qed

theorem edges_one_more_than_percentages_witness:
  "normalize_to_percentage (\<lambda>_. None) [Fin 1, Fin 2, Fin 2, Fin 3, Fin 3, Fin 3] (BinEdges [1, 2, 3, 4])
     = Inr ([50 / 3, 100 / 3, 50], [1, 2, 3, 4])
   \<and> BinEdges [1, 2, 3, 4] \<noteq> BinEdges []
   \<and> length [1, 2, 3, 4 :: real] = length [50 / 3, 100 / 3, 50 :: real] + 1
   \<and> normalize_to_percentage (\<lambda>_. None) [Fin 1, Fin 2, Fin 2, Fin 3, Fin 3, Fin 3] (BinEdges [])
     = Inr ([], [])"
proof -
  have h: "normalize_to_percentage (\<lambda>_. None) [Fin 1, Fin 2, Fin 2, Fin 3, Fin 3, Fin 3] (BinEdges [1, 2, 3, 4])
     = Inr ([50 / 3, 100 / 3, 50], [1, 2, 3, 4])"
    by (simp add: normalize_to_percentage_def np_histogram_def)
  have n: "BinEdges [1, 2, 3, 4] \<noteq> BinEdges []" by simp
  from edges_one_more_than_percentages[of "\<lambda>_. None" "[Fin 1, Fin 2, Fin 2, Fin 3, Fin 3, Fin 3]"
      "BinEdges [1, 2, 3, 4]" "[50 / 3, 100 / 3, 50]" "[1, 2, 3, 4]"] h n
  show ?thesis by blast
qed

text \<open>
  As C7 is written, for every bin specification, it fails at the empty sequence of
  edges: \<open>np.histogram\<close> returns no count and no edge, and so does the normalizer.
\<close>

theorem empty_edges_counterexample:
  "\<exists>ps es. normalize_to_percentage (\<lambda>_. None) [Fin 1, Fin 2, Fin 3] (BinEdges []) = Inr (ps, es)
     \<and> length es \<noteq> length ps + 1"
  by (simp add: normalize_to_percentage_def np_histogram_def)

section \<open>Minimum and maximum\<close>

text \<open>
  On finite floats \<open>np.min\<close> and \<open>np.max\<close> are the least and the greatest value
  (\<open>np_min_finite\<close>, \<open>np_max_finite\<close>).
\<close>

lemma fl_minimum_idem: "fl_minimum v v = v"
  by (cases v) (simp_all add: fl_minimum_def)

lemma fl_maximum_idem: "fl_maximum v v = v"
  by (cases v) (simp_all add: fl_maximum_def)

lemma np_min_replicate: "np_min (replicate (Suc n) v) = Inr v"
  by (induction n) (simp_all add: fl_minimum_idem)

lemma np_max_replicate: "np_max (replicate (Suc n) v) = Inr v"
  by (induction n) (simp_all add: fl_maximum_idem)

lemma fold_fl_minimum_Fin: "fold fl_minimum (map Fin rs) (Fin r) = Fin (Min (set (r # rs)))"
proof (induction rs arbitrary: r)
  case Nil
  then show ?case by simp
next
  case (Cons a rs)
  have "fl_minimum (Fin a) (Fin r) = Fin (min r a)"
    by (auto simp: fl_minimum_def min_def)
  moreover have "Min (set (min r a # rs)) = Min (set (r # a # rs))"
    by (cases "rs = []") (auto simp: min.assoc Min_insert)
  ultimately show ?case using Cons.IH[of "min r a"] by simp
qed

lemma fold_fl_maximum_Fin: "fold fl_maximum (map Fin rs) (Fin r) = Fin (Max (set (r # rs)))"
proof (induction rs arbitrary: r)
  case Nil
  then show ?case by simp
next
  case (Cons a rs)
  have "fl_maximum (Fin a) (Fin r) = Fin (max r a)"
    by (auto simp: fl_maximum_def max_def)
  moreover have "Max (set (max r a # rs)) = Max (set (r # a # rs))"
    by (cases "rs = []") (auto simp: max.assoc Max_insert)
  ultimately show ?case using Cons.IH[of "max r a"] by simp
qed

lemma np_min_finite: "rs \<noteq> [] \<Longrightarrow> np_min (map Fin rs) = Inr (Fin (Min (set rs)))"
  by (cases rs) (simp_all only: list.map np_min.simps fold_fl_minimum_Fin, simp)

lemma np_max_finite: "rs \<noteq> [] \<Longrightarrow> np_max (map Fin rs) = Inr (Fin (Max (set rs)))"
  by (cases rs) (simp_all only: list.map np_max.simps fold_fl_maximum_Fin, simp)

section \<open>Percentages that sum to 100\<close>

text \<open>
  The bins between sorted edges split the values from the first edge to the last:
  the counts add up to the number of values in that range (\<open>sum_bin_counts\<close>). Equal
  bins laid over the range of finite data count every value
  (\<open>np_histogram_uniform_total\<close>).
\<close>

lemma fl_le_Fin [simp]: "fl_le (Fin a) (Fin b) = (a \<le> b)"
  by auto

lemma length_filter_disjoint:
  "(\<And>x. \<not> (P x \<and> Q x)) \<Longrightarrow>
   length (filter P xs) + length (filter Q xs) = length (filter (\<lambda>x. P x \<or> Q x) xs)"
  by (induction xs) auto

lemma bin_split:
  assumes "e0 \<le> e1" "e1 \<le> el"
  shows "(fl_le (Fin e0) x \<and> fl_less x (Fin e1)) \<or> (fl_le (Fin e1) x \<and> fl_le x (Fin el))
         \<longleftrightarrow> fl_le (Fin e0) x \<and> fl_le x (Fin el)"
    and "\<not> ((fl_le (Fin e0) x \<and> fl_less x (Fin e1)) \<and> (fl_le (Fin e1) x \<and> fl_le x (Fin el)))"
  using assms by (cases x; auto)+

lemma sum_bin_counts:
  "sorted es \<Longrightarrow> 2 \<le> length es \<Longrightarrow>
   sum_list (bin_counts es a) = length (filter (\<lambda>x. fl_le (Fin (hd es)) x \<and> fl_le x (Fin (last es))) a)"
proof (induction es a rule: bin_counts.induct)
  case (1 e0 e1 e2 es a)
  then have s: "sorted (e1 # e2 # es)" and le: "e0 \<le> e1" "e1 \<le> last (e1 # e2 # es)"
    by auto
  from 1(1)[OF s] have ih: "sum_list (bin_counts (e1 # e2 # es) a)
      = length (filter (\<lambda>x. fl_le (Fin e1) x \<and> fl_le x (Fin (last (e1 # e2 # es)))) a)"
    by simp
  have "sum_list (bin_counts (e0 # e1 # e2 # es) a)
      = length (filter (\<lambda>x. fl_le (Fin e0) x \<and> fl_less x (Fin e1)) a)
        + length (filter (\<lambda>x. fl_le (Fin e1) x \<and> fl_le x (Fin (last (e1 # e2 # es)))) a)"
    using ih by simp
  also have "\<dots> = length (filter (\<lambda>x. (fl_le (Fin e0) x \<and> fl_less x (Fin e1))
                          \<or> (fl_le (Fin e1) x \<and> fl_le x (Fin (last (e1 # e2 # es))))) a)"
    by (rule length_filter_disjoint) (rule bin_split(2)[OF le])
  also have "\<dots> = length (filter (\<lambda>x. fl_le (Fin e0) x \<and> fl_le x (Fin (last (e1 # e2 # es)))) a)"
    by (simp only: bin_split(1)[OF le])
  finally show ?case by simp
next
  case (2 e0 e1 a)
  then show ?case by simp
qed simp_all

lemma np_linspace_sorted:
  assumes "lo \<le> hi" "0 < n"
  shows "sorted (np_linspace lo hi n)" "hd (np_linspace lo hi n) = lo" "last (np_linspace lo hi n) = hi"
    "2 \<le> length (np_linspace lo hi n)"
proof -
  let ?f = "\<lambda>i. lo + (hi - lo) * real i / real n"
  have mono: "?f i \<le> ?f j" if "i \<le> j" for i j
  proof -
    have "(hi - lo) * real i \<le> (hi - lo) * real j"
      using that assms(1) by (intro mult_left_mono) auto
    then show ?thesis using assms(2) by (simp add: divide_right_mono)
  qed
  have l: "np_linspace lo hi n = map ?f [0..<Suc n]"
    using assms(2) by (simp add: np_linspace_def)
  show "sorted (np_linspace lo hi n)"
    unfolding l sorted_iff_nth_mono
  proof (intro allI impI)
    fix i j assume "i \<le> j" "j < length (map ?f [0..<Suc n])"
    then have "i < Suc n" "j < Suc n" by simp_all
    then have "map ?f [0..<Suc n] ! i = ?f i" "map ?f [0..<Suc n] ! j = ?f j"
      by (simp_all only: nth_map_upt add_0 minus_nat.diff_0)
    with mono[OF \<open>i \<le> j\<close>] show "map ?f [0..<Suc n] ! i \<le> map ?f [0..<Suc n] ! j"
      by simp
  qed
  show "hd (np_linspace lo hi n) = lo"
    unfolding l by (simp add: upt_rec)
  show "last (np_linspace lo hi n) = hi"
    unfolding l using assms(2) by (simp add: last_map)
  show "2 \<le> length (np_linspace lo hi n)"
    unfolding l using assms(2) by simp
qed

lemma get_outer_edges_finite:
  assumes "rs \<noteq> []"
  shows "\<exists>lo hi. get_outer_edges (map Fin rs) = Inr (lo, hi) \<and> lo < hi
           \<and> (\<forall>r\<in>set rs. lo \<le> r \<and> r \<le> hi)"
proof -
  have fin: "finite (set rs)" "set rs \<noteq> {}" using assms by auto
  have b: "\<forall>r\<in>set rs. Min (set rs) \<le> r \<and> r \<le> Max (set rs)"
    using fin by auto
  have mm: "Min (set rs) \<le> Max (set rs)" using fin by (simp add: Min_le_iff)
  show ?thesis
  proof (cases "Min (set rs) = Max (set rs)")
    case True
    have "get_outer_edges (map Fin rs) = Inr (Min (set rs) - 1 / 2, Max (set rs) + 1 / 2)"
      using assms True by (simp add: get_outer_edges_def np_min_finite np_max_finite)
    moreover have "\<forall>r\<in>set rs. Min (set rs) - 1 / 2 \<le> r \<and> r \<le> Max (set rs) + 1 / 2"
      using b by (auto intro: order_trans[of _ "Min (set rs)"] order_trans[of _ "Max (set rs)"])
    moreover have "Min (set rs) - 1 / 2 < Max (set rs) + 1 / 2" using mm by simp
    ultimately show ?thesis by blast
  next
    case False
    have "get_outer_edges (map Fin rs) = Inr (Min (set rs), Max (set rs))"
      using assms False by (simp add: get_outer_edges_def np_min_finite np_max_finite)
    moreover have "Min (set rs) < Max (set rs)" using mm False by simp
    ultimately show ?thesis using b by blast
  qed
qed

lemma uniform_counts_total:
  assumes "lo < hi" "0 < n" "\<forall>r\<in>set rs. lo \<le> r \<and> r \<le> hi"
  shows "sum_list (bin_counts (np_linspace lo hi n) (map Fin rs)) = length rs"
proof -
  have le: "lo \<le> hi" using assms(1) by simp
  note l = np_linspace_sorted[OF le assms(2)]
  have "sum_list (bin_counts (np_linspace lo hi n) (map Fin rs))
      = length (filter (\<lambda>x. fl_le (Fin lo) x \<and> fl_le x (Fin hi)) (map Fin rs))"
    using sum_bin_counts[OF l(1) l(4), of "map Fin rs"] by (simp only: l(2) l(3))
  also have "filter (\<lambda>x. fl_le (Fin lo) x \<and> fl_le x (Fin hi)) (map Fin rs) = map Fin rs"
    using assms(3) by (intro filter_True) auto
  finally show ?thesis by simp
qed

lemma finite_part_Fin: "finite_part (map Fin rs) = rs"
  by (induction rs) auto

lemma np_histogram_uniform_total:
  assumes "rs \<noteq> []"
    and "(\<exists>n. bins = BinCount n \<and> 1 \<le> n)
       \<or> (\<exists>name estimator. bins = BinStrategy name \<and> sel name = Some estimator \<and> 1 \<le> estimator rs)"
  shows "\<exists>counts bin_edges. np_histogram sel (map Fin rs) bins = Inr (counts, bin_edges)
           \<and> sum_list counts = length rs"
proof -
  from get_outer_edges_finite[OF assms(1)] obtain lo hi where
    g: "get_outer_edges (map Fin rs) = Inr (lo, hi)" and lt: "lo < hi"
    and b: "\<forall>r\<in>set rs. lo \<le> r \<and> r \<le> hi"
    by blast
  from assms(2) show ?thesis
  proof (elim disjE exE conjE)
    fix n :: int
    assume h: "bins = BinCount n" "1 \<le> n"
    then have "0 < nat n" by simp
    from uniform_counts_total[OF lt this b] h g show ?thesis
      by (simp add: np_histogram_def Let_def)
  next
    fix name estimator
    assume h: "bins = BinStrategy name" "sel name = Some estimator" "1 \<le> estimator rs"
    then have "0 < estimator rs" by simp
    from uniform_counts_total[OF lt this b] h g assms(1) show ?thesis
      by (simp add: np_histogram_def finite_part_Fin Let_def)
  qed
qed

text \<open>
  C1. Whenever the counts of \<open>np.histogram\<close> have a positive total,
  \<open>normalize_to_percentage\<close> returns for every bin its count divided by the total, times
  100, and these percentages sum to 100. The total is positive, so they do sum to 100, for
  every non-empty sample of finite values in equal-width bins: one bin or more given as a
  count, or as an estimator that settles on one bin or more. The sample
  \<open>[1, 2, 2, 3, 3, 3]\<close> in three bins of width 1 has the percentages \<open>50/3\<close>, \<open>100/3\<close>
  and \<open>50\<close>. When no value of the sample lies between the first and the last of the
  given edges, the total is zero and every percentage is zero.
\<close>

lemma no_value_counted:
  assumes "sorted es" and "\<not> list_ex (\<lambda>x. fl_le (Fin (hd es)) x \<and> fl_le x (Fin (last es))) a"
  shows "sum_list (bin_counts es a) = 0"
proof (cases "2 \<le> length es")
  case True
  have "filter (\<lambda>x. fl_le (Fin (hd es)) x \<and> fl_le x (Fin (last es))) a = []"
    using assms(2) by (simp add: list_ex_iff filter_empty_conv)
  with sum_bin_counts[OF assms(1) True, of a] show ?thesis by simp
next
  case False
  then have "length (bin_counts es a) = 0" by (simp add: length_bin_counts)
  then show ?thesis by simp
qed

theorem percentages_sum_to_100:
  "(np_histogram sel data bins = Inr (counts, bin_edges) \<and> 0 < sum_list counts \<longrightarrow>
      normalize_to_percentage sel data bins
        = Inr (map (\<lambda>c. (real c / real (sum_list counts)) * 100) counts, bin_edges)
      \<and> sum_list (map (\<lambda>c. (real c / real (sum_list counts)) * 100) counts) = 100)
   \<and> (rs \<noteq> [] \<and> ((\<exists>n. bins' = BinCount n \<and> 1 \<le> n)
         \<or> (\<exists>name estimator. bins' = BinStrategy name \<and> sel name = Some estimator \<and> 1 \<le> estimator rs)) \<longrightarrow>
      (\<exists>percentages edges. normalize_to_percentage sel (map Fin rs) bins' = Inr (percentages, edges)
          \<and> sum_list percentages = 100))
   \<and> normalize_to_percentage sel [Fin 1, Fin 2, Fin 2, Fin 3, Fin 3, Fin 3] (BinEdges [1, 2, 3, 4])
        = Inr ([50 / 3, 100 / 3, 50], [1, 2, 3, 4])
   \<and> (sorted es \<and> \<not> list_ex (\<lambda>x. fl_le (Fin (hd es)) x \<and> fl_le x (Fin (last es))) data' \<longrightarrow>
      normalize_to_percentage sel data' (BinEdges es) = Inr (replicate (length es - 1) 0, es))"
proof (intro conjI impI)
  assume a: "np_histogram sel data bins = Inr (counts, bin_edges) \<and> 0 < sum_list counts"
  then show "normalize_to_percentage sel data bins
        = Inr (map (\<lambda>c. (real c / real (sum_list counts)) * 100) counts, bin_edges)"
    using normalize_unfold[of sel data bins counts bin_edges "sum_list counts"] by simp
  from a show "sum_list (map (\<lambda>c. (real c / real (sum_list counts)) * 100) counts) = 100"
    by (simp only: sum_percent)
next
  assume a: "rs \<noteq> [] \<and> ((\<exists>n. bins' = BinCount n \<and> 1 \<le> n)
         \<or> (\<exists>name estimator. bins' = BinStrategy name \<and> sel name = Some estimator \<and> 1 \<le> estimator rs))"
  then obtain cs es where h: "np_histogram sel (map Fin rs) bins' = Inr (cs, es)"
    and t: "sum_list cs = length rs"
    using np_histogram_uniform_total[of rs bins' sel] by blast
  from a t have p: "0 < sum_list cs" by simp
  have "normalize_to_percentage sel (map Fin rs) bins'
        = Inr (map (\<lambda>c. (real c / real (sum_list cs)) * 100) cs, es)"
    using normalize_unfold[OF h refl] p by simp
  moreover have "sum_list (map (\<lambda>c. (real c / real (sum_list cs)) * 100) cs) = 100"
    using p by (rule sum_percent)
  ultimately show "\<exists>percentages edges. normalize_to_percentage sel (map Fin rs) bins' = Inr (percentages, edges)
          \<and> sum_list percentages = 100"
    by blast
next
  show "normalize_to_percentage sel [Fin 1, Fin 2, Fin 2, Fin 3, Fin 3, Fin 3] (BinEdges [1, 2, 3, 4])
        = Inr ([50 / 3, 100 / 3, 50], [1, 2, 3, 4])"
    by (simp add: normalize_to_percentage_def np_histogram_def)
next
  assume a: "sorted es \<and> \<not> list_ex (\<lambda>x. fl_le (Fin (hd es)) x \<and> fl_le x (Fin (last es))) data'"
  then have h: "np_histogram sel data' (BinEdges es) = Inr (bin_counts es data', es)"
    by (simp add: np_histogram_def)
  from a have z: "sum_list (bin_counts es data') = 0"
    using no_value_counted by blast
  have "normalize_to_percentage sel data' (BinEdges es) = Inr (map real (bin_counts es data'), es)"
    using normalize_unfold[OF h, of 0] z by (simp del: sum_list_eq_0_iff)
  moreover have "map real (bin_counts es data') = replicate (length (bin_counts es data')) 0"
    using z by (rule sum_list_zero_nat)
  ultimately show "normalize_to_percentage sel data' (BinEdges es) = Inr (replicate (length es - 1) 0, es)"
    by (simp add: length_bin_counts)
qed

text \<open>
  The sample of the example, with the edges \<open>1, 2, 3, 4\<close> and with three equal bins; and
  the sample \<open>[1, 2, 3]\<close> with the edges \<open>10, 20\<close>, which hold none of its values.
\<close>

theorem percentages_sum_to_100_witness:
  "np_histogram (\<lambda>_. None) [Fin 1, Fin 2, Fin 2, Fin 3, Fin 3, Fin 3] (BinEdges [1, 2, 3, 4])
     = Inr ([1, 2, 3], [1, 2, 3, 4])
   \<and> 0 < sum_list [1, 2, 3 :: nat]
   \<and> normalize_to_percentage (\<lambda>_. None) [Fin 1, Fin 2, Fin 2, Fin 3, Fin 3, Fin 3] (BinEdges [1, 2, 3, 4])
     = Inr ([50 / 3, 100 / 3, 50], [1, 2, 3, 4])
   \<and> sum_list [50 / 3, 100 / 3, 50 :: real] = 100
   \<and> [1, 2, 2, 3, 3, 3 :: real] \<noteq> []
   \<and> (\<exists>percentages edges.
         normalize_to_percentage (\<lambda>_. None) (map Fin [1, 2, 2, 3, 3, 3]) (BinCount 3)
           = Inr (percentages, edges)
       \<and> sum_list percentages = 100)
   \<and> sorted [10, 20 :: real]
   \<and> \<not> list_ex (\<lambda>x. fl_le (Fin (hd [10, 20])) x \<and> fl_le x (Fin (last [10, 20]))) [Fin 1, Fin 2, Fin 3]
   \<and> normalize_to_percentage (\<lambda>_. None) [Fin 1, Fin 2, Fin 3] (BinEdges [10, 20]) = Inr ([0], [10, 20])"
proof -
  let ?d = "[Fin 1, Fin 2, Fin 2, Fin 3, Fin 3, Fin 3]"
  have h: "np_histogram (\<lambda>_. None) ?d (BinEdges [1, 2, 3, 4]) = Inr ([1, 2, 3], [1, 2, 3, 4])"
    by (simp add: np_histogram_def)
  have p: "0 < sum_list [1, 2, 3 :: nat]" by simp
  have ne: "[1, 2, 2, 3, 3, 3 :: real] \<noteq> []" by simp
  have s: "sorted [10, 20 :: real]" by simp
  have o: "\<not> list_ex (\<lambda>x. fl_le (Fin (hd [10, 20])) x \<and> fl_le x (Fin (last [10, 20]))) [Fin 1, Fin 2, Fin 3]"
    by simp
  note t = percentages_sum_to_100[where sel = "\<lambda>_. None" and data = ?d and bins = "BinEdges [1, 2, 3, 4]"
      and counts = "[1, 2, 3]" and bin_edges = "[1, 2, 3, 4]" and rs = "[1, 2, 2, 3, 3, 3]"
      and es = "[10, 20]" and data' = "[Fin 1, Fin 2, Fin 3]"]
  from t h p have 1: "normalize_to_percentage (\<lambda>_. None) ?d (BinEdges [1, 2, 3, 4])
     = Inr ([50 / 3, 100 / 3, 50], [1, 2, 3, 4])"
    by blast
  have 2: "sum_list [50 / 3, 100 / 3, 50 :: real] = 100" by simp
  from t[where bins' = "BinCount 3"] ne have 3: "\<exists>percentages edges.
         normalize_to_percentage (\<lambda>_. None) (map Fin [1, 2, 2, 3, 3, 3]) (BinCount 3)
           = Inr (percentages, edges)
       \<and> sum_list percentages = 100"
    by simp
  from t s o have "normalize_to_percentage (\<lambda>_. None) [Fin 1, Fin 2, Fin 3] (BinEdges [10, 20])
      = Inr (replicate (length [10, 20 :: real] - 1) 0, [10, 20])"
    by blast
  then have 4: "normalize_to_percentage (\<lambda>_. None) [Fin 1, Fin 2, Fin 3] (BinEdges [10, 20]) = Inr ([0], [10, 20])"
    by simp
  show ?thesis
    apply (intro conjI)
    apply (rule h)
    apply (rule p)
    apply (rule 1)
    apply (rule 2)
    apply (rule ne)
    apply (rule 3)
    apply (rule s)
    apply (rule o)
    apply (rule 4)
    done
qed

text \<open>
  As C1 is written, for every non-empty numeric sample, it fails where no value of the
  sample lies in a bin: \<open>[1, 2, 3]\<close> with the edges \<open>10, 20\<close> has the total 0, the branch
  without the division returns the percentage 0, and the sum is 0.
\<close>

theorem no_value_in_any_bin_counterexample:
  "\<exists>percentages edges.
     normalize_to_percentage (\<lambda>_. None) [Fin 1, Fin 2, Fin 3] (BinEdges [10, 20]) = Inr (percentages, edges)
     \<and> sum_list percentages \<noteq> 100"
  by (simp add: normalize_to_percentage_def np_histogram_def)

section \<open>The range frame\<close>

text \<open>
  The minimum and maximum of an integer array are its least and greatest signed value,
  and their difference does not wrap when it is below \<open>2^63\<close>.
\<close>

lemma fold_int_minimum: "sint (fold int_minimum ws w) = Min (sint ` set (w # ws))"
proof (induction ws arbitrary: w)
  case Nil
  then show ?case by simp
next
  case (Cons a ws)
  have "sint (int_minimum a w) = min (sint w) (sint a)"
    by (auto simp: int_minimum_def min_def)
  moreover have "Min (sint ` set (int_minimum a w # ws)) = Min (sint ` set (w # a # ws))"
    using calculation by (cases "ws = []") (auto simp: min.assoc Min_insert)
  ultimately show ?case using Cons.IH[of "int_minimum a w"] by simp
qed

lemma fold_int_maximum: "sint (fold int_maximum ws w) = Max (sint ` set (w # ws))"
proof (induction ws arbitrary: w)
  case Nil
  then show ?case by simp
next
  case (Cons a ws)
  have "sint (int_maximum a w) = max (sint w) (sint a)"
    by (auto simp: int_maximum_def max_def)
  moreover have "Max (sint ` set (int_maximum a w # ws)) = Max (sint ` set (w # a # ws))"
    using calculation by (cases "ws = []") (auto simp: max.assoc Max_insert)
  ultimately show ?case using Cons.IH[of "int_maximum a w"] by simp
qed

lemma int_min_sint: "ws \<noteq> [] \<Longrightarrow> \<exists>m. int_min ws = Inr m \<and> sint m = Min (sint ` set ws)"
  by (cases ws) (simp_all add: fold_int_minimum)

lemma int_max_sint: "ws \<noteq> [] \<Longrightarrow> \<exists>m. int_max ws = Inr m \<and> sint m = Max (sint ` set ws)"
  by (cases ws) (simp_all add: fold_int_maximum)



lemma arr_min_floats: "rs \<noteq> [] \<Longrightarrow> arr_min (Float64 (map Fin rs)) = Inr (FloatS (Fin (Min (set rs))))"
  by (simp add: np_min_finite)

lemma arr_max_floats: "rs \<noteq> [] \<Longrightarrow> arr_max (Float64 (map Fin rs)) = Inr (FloatS (Fin (Max (set rs))))"
  by (simp add: np_max_finite)









lemma range_frame_x_None: "range_frame_x ax None xp = Inr ax"
  by (simp add: range_frame_x_def)

lemma range_frame_y_None: "range_frame_y ax None yp = Inr ax"
  by (simp add: range_frame_y_def)




text \<open>
  The integer array of the least and the greatest int64: the difference wraps to \<open>-1\<close>,
  which is not positive, and the limits are those of constant data.
\<close>

lemma integer_range_wraps:
  "int_min [- 9223372036854775808, 9223372036854775807] = Inr (- 9223372036854775808)
   \<and> int_max [- 9223372036854775808, 9223372036854775807] = Inr 9223372036854775807
   \<and> sc_sub (IntS 9223372036854775807) (IntS (- 9223372036854775808)) = IntS (- 1)
   \<and> range_frame (new_axes \<lparr>fig_num = 0, fig_size = (8, 5)\<rparr> (0, 0) False False)
        (Some (Int64 [- 9223372036854775808, 9223372036854775807])) None default_padding default_padding
     = Inr ((new_axes \<lparr>fig_num = 0, fig_size = (8, 5)\<rparr> (0, 0) False False)
           \<lparr>xlim := (Some (Fin (- 9223372036854775808 - 1 / 2)), Some (Fin (9223372036854775807 + 1 / 2))),
            bottom_bounds := Some (Fin (- 9223372036854775808), Fin 9223372036854775807)\<rparr>)"
  by (simp add: range_frame_def range_frame_x_def range_frame_y_def set_xlim_def default_padding_def
      int_minimum_def int_maximum_def int_to_float_def fl_sub_def Let_def)


lemma int_minimum_idem: "int_minimum w w = w"
  by (simp add: int_minimum_def)

lemma int_maximum_idem: "int_maximum w w = w"
  by (simp add: int_maximum_def)

lemma int_min_replicate: "int_min (replicate (Suc n) w) = Inr w"
  by (induction n) (simp_all add: int_minimum_idem)

lemma int_max_replicate: "int_max (replicate (Suc n) w) = Inr w"
  by (induction n) (simp_all add: int_maximum_idem)

lemma range_frame_x_constant_float:
  "range_frame_x ax (Some (Float64 (replicate (Suc n) (Fin r)))) xp =
     Inr (ax\<lparr>xlim := (Some (Fin (r - 1 / 2)), Some (Fin (r + 1 / 2))),
             bottom_bounds := Some (Fin r, Fin r)\<rparr>)"
  unfolding range_frame_x_def
  by (simp add: np_min_replicate np_max_replicate set_xlim_def fl_sub_def Let_def
      del: replicate.simps np_min.simps np_max.simps)

lemma range_frame_y_constant_float:
  "range_frame_y ax (Some (Float64 (replicate (Suc n) (Fin r)))) yp =
     Inr (ax\<lparr>ylim := (Some (Fin (r - 1 / 2)), Some (Fin (r + 1 / 2))),
             left_bounds := Some (Fin r, Fin r)\<rparr>)"
  unfolding range_frame_y_def
  by (simp add: np_min_replicate np_max_replicate set_ylim_def fl_sub_def Let_def
      del: replicate.simps np_min.simps np_max.simps)

lemma range_frame_x_constant_int:
  "range_frame_x ax (Some (Int64 (replicate (Suc n) w))) xp =
     Inr (ax\<lparr>xlim := (Some (Fin (real_of_int (sint w) - 1 / 2)), Some (Fin (real_of_int (sint w) + 1 / 2))),
             bottom_bounds := Some (Fin (real_of_int (sint w)), Fin (real_of_int (sint w)))\<rparr>)"
  unfolding range_frame_x_def
  by (simp add: int_min_replicate int_max_replicate set_xlim_def fl_sub_def Let_def int_to_float_def
      del: replicate.simps int_min.simps int_max.simps)

lemma range_frame_y_constant_int:
  "range_frame_y ax (Some (Int64 (replicate (Suc n) w))) yp =
     Inr (ax\<lparr>ylim := (Some (Fin (real_of_int (sint w) - 1 / 2)), Some (Fin (real_of_int (sint w) + 1 / 2))),
             left_bounds := Some (Fin (real_of_int (sint w)), Fin (real_of_int (sint w)))\<rparr>)"
  unfolding range_frame_y_def
  by (simp add: int_min_replicate int_max_replicate set_ylim_def fl_sub_def Let_def int_to_float_def
      del: replicate.simps int_min.simps int_max.simps)

lemma range_frame_x_constant_not_finite:
  "\<not> np_isfinite v \<Longrightarrow> range_frame_x ax (Some (Float64 (replicate (Suc n) v))) xp = Inl limits_not_finite"
  unfolding range_frame_x_def
  by (cases v) (simp_all add: np_min_replicate np_max_replicate set_xlim_def fl_sub_def Let_def
      del: replicate.simps np_min.simps np_max.simps)

lemma range_frame_y_constant_not_finite:
  "\<not> np_isfinite v \<Longrightarrow> range_frame_y ax (Some (Float64 (replicate (Suc n) v))) yp = Inl limits_not_finite"
  unfolding range_frame_y_def
  by (cases v) (simp_all add: np_min_replicate np_max_replicate set_ylim_def fl_sub_def Let_def
      del: replicate.simps np_min.simps np_max.simps)

text \<open>
  C3. For an array all of whose values are one finite value \<open>v\<close>, float or integer,
  \<open>range_frame\<close> sets the display limits to \<open>v - 0.5\<close> and \<open>v + 0.5\<close>, the fixed pad
  whatever the padding fraction, and the spine bounds to \<open>(v, v)\<close>; on either axis, and
  whatever the data of the other axis. When \<open>v\<close> is infinite or NaN the limits are refused
  with a ValueError and the spine bounds are not set.
\<close>

theorem range_frame_constant_data:
  "(let limits = (Some (Fin (r - 1 / 2)), Some (Fin (r + 1 / 2))); bounds = Some (Fin r, Fin r)
    in range_frame ax (Some (Float64 (replicate (Suc n) (Fin r)))) y_data xp yp
         = range_frame_y (ax\<lparr>xlim := limits, bottom_bounds := bounds\<rparr>) y_data yp
     \<and> range_frame ax x_data (Some (Float64 (replicate (Suc n) (Fin r)))) xp yp
         = (case range_frame_x ax x_data xp of
              Inl e \<Rightarrow> Inl e
            | Inr ax1 \<Rightarrow> Inr (ax1\<lparr>ylim := limits, left_bounds := bounds\<rparr>)))
   \<and> (let v = real_of_int (sint w);
           limits = (Some (Fin (v - 1 / 2)), Some (Fin (v + 1 / 2))); bounds = Some (Fin v, Fin v)
       in range_frame ax (Some (Int64 (replicate (Suc n) w))) y_data xp yp
            = range_frame_y (ax\<lparr>xlim := limits, bottom_bounds := bounds\<rparr>) y_data yp
        \<and> range_frame ax x_data (Some (Int64 (replicate (Suc n) w))) xp yp
            = (case range_frame_x ax x_data xp of
                 Inl e \<Rightarrow> Inl e
               | Inr ax1 \<Rightarrow> Inr (ax1\<lparr>ylim := limits, left_bounds := bounds\<rparr>)))
   \<and> range_frame_x ax0 None xp = Inr ax0
   \<and> range_frame_y ax0 None yp = Inr ax0
   \<and> (\<not> np_isfinite v \<longrightarrow>
        range_frame ax (Some (Float64 (replicate (Suc n) v))) y_data xp yp = Inl limits_not_finite
      \<and> range_frame_y ax (Some (Float64 (replicate (Suc n) v))) yp = Inl limits_not_finite)"
  by (simp add: Let_def range_frame_def range_frame_x_constant_float range_frame_y_constant_float
      range_frame_x_constant_int range_frame_y_constant_int range_frame_x_None range_frame_y_None
      range_frame_x_constant_not_finite range_frame_y_constant_not_finite
      del: replicate.simps split: sum.splits)

text \<open>The sample \<open>[5.0] * 100\<close>: limits \<open>(4.5, 5.5)\<close>, bounds \<open>(5, 5)\<close>. Two infinities: refused.\<close>

theorem range_frame_constant_data_witness:
  "range_frame (new_axes \<lparr>fig_num = 0, fig_size = (8, 5)\<rparr> (0, 0) False False)
       (Some (Float64 (replicate (Suc 99) (Fin 5)))) None default_padding default_padding =
     Inr ((new_axes \<lparr>fig_num = 0, fig_size = (8, 5)\<rparr> (0, 0) False False)
          \<lparr>xlim := (Some (Fin (9 / 2)), Some (Fin (11 / 2))), bottom_bounds := Some (Fin 5, Fin 5)\<rparr>)
   \<and> \<not> np_isfinite PInf
   \<and> range_frame (new_axes \<lparr>fig_num = 0, fig_size = (8, 5)\<rparr> (0, 0) False False)
       (Some (Float64 (replicate (Suc 1) PInf))) None default_padding default_padding = Inl limits_not_finite"
proof -
  let ?ax = "new_axes \<lparr>fig_num = 0, fig_size = (8, 5)\<rparr> (0, 0) False False"
  note t = range_frame_constant_data[of 5 ?ax 99 None default_padding default_padding None 0
      "?ax\<lparr>xlim := (Some (Fin (9 / 2)), Some (Fin (11 / 2))), bottom_bounds := Some (Fin 5, Fin 5)\<rparr>" PInf]
  note u = range_frame_constant_data[of 5 ?ax 1 None default_padding default_padding None 0 ?ax PInf]
  have 1: "range_frame ?ax (Some (Float64 (replicate (Suc 99) (Fin 5)))) None default_padding default_padding =
     Inr (?ax\<lparr>xlim := (Some (Fin (9 / 2)), Some (Fin (11 / 2))), bottom_bounds := Some (Fin 5, Fin 5)\<rparr>)"
    using t by (simp add: Let_def del: replicate.simps)
  have 2: "\<not> np_isfinite PInf" by simp
  have 3: "range_frame ?ax (Some (Float64 (replicate (Suc 1) PInf))) None default_padding default_padding
      = Inl limits_not_finite"
    using u 2 by (simp del: replicate.simps)
  from 1 2 3 show ?thesis by (intro conjI)
qed

text \<open>
  As C3 is written, for every array of equal values, it fails where the value is infinite:
  for \<open>[inf, inf, inf]\<close> the maximum equals the minimum, the limits \<open>inf - 0.5\<close> and
  \<open>inf + 0.5\<close> are refused, and \<open>range_frame\<close> ends before it bounds the spine.
\<close>

theorem constant_infinite_data_counterexample:
  "range_frame (new_axes \<lparr>fig_num = 0, fig_size = (8, 5)\<rparr> (0, 0) False False)
       (Some (Float64 [PInf, PInf, PInf])) None default_padding default_padding
     = Inl (ValueError ''Axis limits cannot be NaN or Inf'')
   \<and> np_min [PInf, PInf, PInf] = Inr PInf \<and> np_max [PInf, PInf, PInf] = Inr PInf"
  by (simp add: range_frame_def range_frame_x_def set_xlim_def limits_not_finite_def
      fl_minimum_def fl_maximum_def fl_sub_def Let_def)

section \<open>One axis at a time\<close>

lemma fl_minimum_int: "fl_minimum (int_to_float a) (int_to_float w) = int_to_float (int_minimum a w)"
  by (simp add: fl_minimum_def int_minimum_def int_to_float_def del: of_int_sint)

lemma fl_maximum_int: "fl_maximum (int_to_float a) (int_to_float w) = int_to_float (int_maximum a w)"
  by (simp add: fl_maximum_def int_maximum_def int_to_float_def del: of_int_sint)

lemma fold_fl_minimum_int:
  "fold fl_minimum (map int_to_float ws) (int_to_float w) = int_to_float (fold int_minimum ws w)"
  by (induction ws arbitrary: w) (simp_all add: fl_minimum_int)

lemma fold_fl_maximum_int:
  "fold fl_maximum (map int_to_float ws) (int_to_float w) = int_to_float (fold int_maximum ws w)"
  by (induction ws arbitrary: w) (simp_all add: fl_maximum_int)

lemma arr_min_as_floats: "arr_min arr = Inr m \<Longrightarrow> np_min (as_floats arr) = Inr (sc_float m)"
  by (cases arr; cases "as_floats arr")
     (auto simp: fold_fl_minimum_int split: sum.splits list.splits elim!: int_min.elims)

lemma arr_max_as_floats: "arr_max arr = Inr m \<Longrightarrow> np_max (as_floats arr) = Inr (sc_float m)"
  by (cases arr; cases "as_floats arr")
     (auto simp: fold_fl_maximum_int split: sum.splits list.splits elim!: int_max.elims)

lemma range_frame_x_keeps:
  assumes "range_frame_x ax x_data xp = Inr ax'"
  shows "ylim ax' = ylim ax" "left_bounds ax' = left_bounds ax" "artists ax' = artists ax"
    "ax_figure ax' = ax_figure ax"
  using assms
  by (auto simp: range_frame_x_def set_xlim_def Let_def split: option.splits sum.splits if_splits)

lemma range_frame_y_keeps:
  assumes "range_frame_y ax y_data yp = Inr ax'"
  shows "xlim ax' = xlim ax" "bottom_bounds ax' = bottom_bounds ax" "artists ax' = artists ax"
    "ax_figure ax' = ax_figure ax"
  using assms
  by (auto simp: range_frame_y_def set_ylim_def Let_def split: option.splits sum.splits if_splits)

lemma range_frame_x_bounds:
  assumes "range_frame_x ax (Some arr) xp = Inr ax'"
  shows "\<exists>lo hi. np_min (as_floats arr) = Inr lo \<and> np_max (as_floats arr) = Inr hi
           \<and> bottom_bounds ax' = Some (lo, hi)"
proof -
  from assms obtain x_min x_max where m: "arr_min arr = Inr x_min" "arr_max arr = Inr x_max"
    and b: "bottom_bounds ax' = Some (sc_float x_min, sc_float x_max)"
    by (auto simp: range_frame_x_def set_xlim_def Let_def split: sum.splits if_splits)
  from arr_min_as_floats[OF m(1)] arr_max_as_floats[OF m(2)] b show ?thesis by blast
qed

lemma set_tufte_style_keeps:
  "ylim (set_tufte_style ax) = ylim ax" "xlim (set_tufte_style ax) = xlim ax"
  "left_bounds (set_tufte_style ax) = left_bounds ax"
  "bottom_bounds (set_tufte_style ax) = bottom_bounds ax"
  "artists (set_tufte_style ax) = artists ax"
  by (simp_all add: set_tufte_style_def despine_def minimal_ticks_def Let_def)

lemma add_artist_keeps:
  "ylim (add_artist a ax) = ylim ax" "xlim (add_artist a ax) = xlim ax"
  "left_bounds (add_artist a ax) = left_bounds ax"
  "bottom_bounds (add_artist a ax) = bottom_bounds ax"
  by (simp_all add: add_artist_def)

lemma create_figure_and_axes_fields:
  assumes "create_figure_and_axes figsize axo st = ((fig, ax0), st')"
  shows "ylim ax0 = (case axo of None \<Rightarrow> (None, None) | Some a \<Rightarrow> ylim a)"
    "left_bounds ax0 = (case axo of None \<Rightarrow> None | Some a \<Rightarrow> left_bounds a)"
    "artists ax0 = (case axo of None \<Rightarrow> [] | Some a \<Rightarrow> artists a)"
  using assms
  by (auto simp: create_figure_and_axes_def plt_subplots_def plt_figure_def new_axes_def
      split: option.splits)

lemma range_frame_x_only:
  assumes "range_frame ax (Some arr) None xp yp = Inr ax'"
  shows "ylim ax' = ylim ax \<and> left_bounds ax' = left_bounds ax
       \<and> (\<exists>lo hi. np_min (as_floats arr) = Inr lo \<and> np_max (as_floats arr) = Inr hi
              \<and> bottom_bounds ax' = Some (lo, hi))"
proof -
  from assms have rx: "range_frame_x ax (Some arr) xp = Inr ax'"
    by (auto simp: range_frame_def range_frame_y_def split: sum.splits)
  from range_frame_x_keeps[OF rx] range_frame_x_bounds[OF rx] show ?thesis by simp
qed

lemma histogram_Inr:
  assumes "histogram sel data bins title xlabel ylabel figsize axo color st = (Inr (fig, axh), st')"
  shows "\<exists>data_array fig0 ax0 ax6.
           validate_data data ''data'' = Inr data_array
         \<and> create_figure_and_axes figsize axo st = ((fig0, ax0), st')
         \<and> ylim ax6 = ylim ax0 \<and> left_bounds ax6 = left_bounds ax0
         \<and> (\<exists>lo hi. np_min (as_floats data_array) = Inr lo \<and> np_max (as_floats data_array) = Inr hi
                \<and> bottom_bounds ax6 = Some (lo, hi))
         \<and> axh = set_ylim_bottom (Fin 0) ax6"
  using assms unfolding histogram_def
  apply (clarsimp split: sum.splits prod.splits list.splits simp: Let_def)
  apply (drule range_frame_x_only)
  apply (auto simp: set_tufte_style_keeps add_artist_keeps split: if_splits)
  done

text \<open>
  C8. \<open>range_frame\<close> acts on each axis by itself: with no x data the x limits and the
  bounds of the bottom spine stay as they were, with no y data the y limits and the bounds
  of the left spine stay. The histogram frames the x axis only: the bottom spine is bounded
  by the minimum and maximum of the data, the left spine is left alone, and the y axis
  starts at zero with its upper limit untouched.
\<close>

theorem range_frame_axes_independent:
  "(range_frame ax None y_data xp yp = Inr ax' \<longrightarrow>
      xlim ax' = xlim ax \<and> bottom_bounds ax' = bottom_bounds ax)
   \<and> (range_frame ax x_data None xp yp = Inr ax'' \<longrightarrow>
      ylim ax'' = ylim ax \<and> left_bounds ax'' = left_bounds ax)
   \<and> (histogram sel data bins title xlabel ylabel figsize axo color st = (Inr (fig, axh), st') \<longrightarrow>
      ylim axh = (Some (Fin 0), case axo of None \<Rightarrow> None | Some a \<Rightarrow> snd (ylim a))
      \<and> left_bounds axh = (case axo of None \<Rightarrow> None | Some a \<Rightarrow> left_bounds a)
      \<and> (\<exists>data_array lo hi. validate_data data ''data'' = Inr data_array
            \<and> np_min (as_floats data_array) = Inr lo \<and> np_max (as_floats data_array) = Inr hi
            \<and> bottom_bounds axh = Some (lo, hi)))"
proof (intro conjI impI)
  assume "range_frame ax None y_data xp yp = Inr ax'"
  then have "range_frame_y ax y_data yp = Inr ax'"
    by (simp add: range_frame_def range_frame_x_def)
  from range_frame_y_keeps[OF this] show "xlim ax' = xlim ax" "bottom_bounds ax' = bottom_bounds ax"
    by simp_all
next
  assume "range_frame ax x_data None xp yp = Inr ax''"
  then have "range_frame_x ax x_data xp = Inr ax''"
    by (auto simp: range_frame_def range_frame_y_def split: sum.splits)
  from range_frame_x_keeps[OF this] show "ylim ax'' = ylim ax" "left_bounds ax'' = left_bounds ax"
    by simp_all
next
  assume h: "histogram sel data bins title xlabel ylabel figsize axo color st = (Inr (fig, axh), st')"
  from histogram_Inr[OF h] obtain data_array fig0 ax0 ax6 lo hi where
    v: "validate_data data ''data'' = Inr data_array"
    and c: "create_figure_and_axes figsize axo st = ((fig0, ax0), st')"
    and k: "ylim ax6 = ylim ax0" "left_bounds ax6 = left_bounds ax0"
    and m: "np_min (as_floats data_array) = Inr lo" "np_max (as_floats data_array) = Inr hi"
           "bottom_bounds ax6 = Some (lo, hi)"
    and a: "axh = set_ylim_bottom (Fin 0) ax6"
    by blast
  note cf = create_figure_and_axes_fields[OF c]
  show "ylim axh = (Some (Fin 0), case axo of None \<Rightarrow> None | Some a \<Rightarrow> snd (ylim a))"
    using a k(1) cf(1) by (simp add: set_ylim_bottom_def split: option.splits)
  show "left_bounds axh = (case axo of None \<Rightarrow> None | Some a \<Rightarrow> left_bounds a)"
    using a k(2) cf(2) by (simp add: set_ylim_bottom_def)
  show "\<exists>data_array lo hi. validate_data data ''data'' = Inr data_array
            \<and> np_min (as_floats data_array) = Inr lo \<and> np_max (as_floats data_array) = Inr hi
            \<and> bottom_bounds axh = Some (lo, hi)"
    using v a m by (auto simp: set_ylim_bottom_def)
qed

text \<open>
  The y data \<open>[10, 20]\<close> alone, the x data \<open>[1, 3]\<close> alone, and the histogram of
  the list \<open>[1, 2, 2, 3, 3, 3]\<close> in three bins on a new figure.
\<close>

lemma histogram_example_returns:
  "\<exists>fig axh. histogram (\<lambda>_. None) (Seq (PyList (IntArray [1, 2, 2, 3, 3, 3])))
       (BinCount 3) None None ''Percentage'' FIGURE_SIZES_default None TUFTE_COLORS_primary 0
     = (Inr (fig, axh), Suc 0)"
  by (simp add: histogram_def validate_data_def create_figure_and_axes_def plt_subplots_def
      plt_figure_def normalize_to_percentage_def np_histogram_def get_outer_edges_def
      np_linspace_def fl_minimum_def fl_maximum_def upt_rec range_frame_def range_frame_x_def
      range_frame_y_def fl_sub_def Let_def int_to_float_def int_minimum_def int_maximum_def
      set_xlim_def default_padding_def)

theorem range_frame_axes_independent_witness:
  "(\<exists>ax'. range_frame (new_axes \<lparr>fig_num = 0, fig_size = (8, 5)\<rparr> (0, 0) False False)
            None (Some (Float64 [Fin 10, Fin 20])) default_padding default_padding = Inr ax'
          \<and> xlim ax' = (None, None) \<and> bottom_bounds ax' = None)
   \<and> (\<exists>ax''. range_frame (new_axes \<lparr>fig_num = 0, fig_size = (8, 5)\<rparr> (0, 0) False False)
            (Some (Float64 [Fin 1, Fin 3])) None default_padding default_padding = Inr ax''
          \<and> ylim ax'' = (None, None) \<and> left_bounds ax'' = None)
   \<and> (\<exists>fig axh. histogram (\<lambda>_. None) (Seq (PyList (IntArray [1, 2, 2, 3, 3, 3])))
          (BinCount 3) None None ''Percentage'' FIGURE_SIZES_default None TUFTE_COLORS_primary 0
        = (Inr (fig, axh), Suc 0)
       \<and> ylim axh = (Some (Fin 0), None) \<and> left_bounds axh = None
       \<and> bottom_bounds axh = Some (Fin 1, Fin 3))"
proof -
  let ?ax = "new_axes \<lparr>fig_num = 0, fig_size = (8, 5)\<rparr> (0, 0) False False"
  let ?d = "Seq (PyList (IntArray [1, 2, 2, 3, 3, 3]))"
  obtain ax' where y: "range_frame ?ax None (Some (Float64 [Fin 10, Fin 20])) default_padding default_padding = Inr ax'"
    by (simp add: range_frame_def range_frame_x_def range_frame_y_def Let_def fl_minimum_def
        fl_maximum_def fl_sub_def set_ylim_def default_padding_def)
  obtain ax'' where x: "range_frame ?ax (Some (Float64 [Fin 1, Fin 3])) None default_padding default_padding = Inr ax''"
    by (simp add: range_frame_def range_frame_x_def range_frame_y_def Let_def fl_minimum_def
        fl_maximum_def fl_sub_def set_xlim_def default_padding_def)
  obtain fig axh where h: "histogram (\<lambda>_. None) ?d (BinCount 3) None None ''Percentage''
       FIGURE_SIZES_default None TUFTE_COLORS_primary 0 = (Inr (fig, axh), Suc 0)"
    using histogram_example_returns by blast
  have v: "validate_data ?d ''data'' = Inr (Int64 [1, 2, 2, 3, 3, 3])"
    by (simp add: validate_data_def)
  note t = range_frame_axes_independent[of ?ax "Some (Float64 [Fin 10, Fin 20])" default_padding default_padding ax'
      "Some (Float64 [Fin 1, Fin 3])" ax'' "\<lambda>_. None" ?d "BinCount 3" None None "''Percentage''"
      FIGURE_SIZES_default None TUFTE_COLORS_primary 0 fig axh "Suc 0"]
  from t y have 1: "xlim ax' = (None, None) \<and> bottom_bounds ax' = None"
    by (simp add: new_axes_def)
  from t x have 2: "ylim ax'' = (None, None) \<and> left_bounds ax'' = None"
    by (simp add: new_axes_def)
  from t h v have 3: "ylim axh = (Some (Fin 0), None) \<and> left_bounds axh = None
      \<and> bottom_bounds axh = Some (Fin 1, Fin 3)"
    by (auto simp: fl_minimum_def fl_maximum_def int_to_float_def)
  from 1 2 3 y x h show ?thesis by blast
qed

section \<open>The input validator\<close>

lemma validate_data_cases:
  "validate_data d name =
     (case to_array d of
        Inl m \<Rightarrow> Inl (TypeError (''Could not convert '' @ name @ '' to array: '' @ m))
      | Inr (StrArray ss) \<Rightarrow>
          if ss = [] then Inl (ValueError (name @ '' is empty'')) else Inl (TypeError isnan_unsupported)
      | Inr (IntArray ws) \<Rightarrow>
          if ws = [] then Inl (ValueError (name @ '' is empty'')) else Inr (Int64 ws)
      | Inr (NumArray xs) \<Rightarrow>
          if xs = [] then Inl (ValueError (name @ '' is empty''))
          else if list_all np_isnan xs then Inl (ValueError (name @ '' contains only NaN values''))
          else Inr (Float64 xs))"
  by (simp add: validate_data_def split: sum.splits ndarray.splits)

lemma validate_data_nonempty: "validate_data d name = Inr arr \<Longrightarrow> 0 < num_len arr"
  by (auto simp: validate_data_cases split: sum.splits ndarray.splits if_splits)

text \<open>
  C10. An input that converts to an array of strings with at least one element makes
  \<open>validate_data\<close> raise the TypeError of \<open>np.isnan\<close>, which is raised outside the
  \<open>try\<close> block, and so no ValueError at all. An empty array of strings raises the
  ValueError "is empty", as every empty array does. No array of strings, empty or not,
  reaches the error "contains only NaN values": whenever that error is raised the input
  converted to a float array that is not empty and holds NaN only.
\<close>

theorem nan_check_raises_on_non_numeric:
  "(to_array d = Inr (StrArray ss) \<and> ss \<noteq> [] \<longrightarrow>
      validate_data d name = Inl (TypeError isnan_unsupported)
      \<and> (\<forall>m. validate_data d name \<noteq> Inl (ValueError m)))
   \<and> (to_array d = Inr (StrArray []) \<longrightarrow>
      validate_data d name = Inl (ValueError (name @ '' is empty'')))
   \<and> (to_array d = Inr (StrArray ss) \<longrightarrow>
      validate_data d name \<noteq> Inl (ValueError (name @ '' contains only NaN values'')))
   \<and> (validate_data d name = Inl (ValueError (name @ '' contains only NaN values'')) \<longrightarrow>
      (\<exists>xs. to_array d = Inr (NumArray xs) \<and> xs \<noteq> [] \<and> list_all np_isnan xs))"
  by (auto simp: validate_data_cases split: sum.splits ndarray.splits if_splits)

text \<open>A list of two strings, the empty array of strings, and the array of three NaN.\<close>

theorem nan_check_raises_on_non_numeric_witness:
  "to_array (Seq (PyList (StrArray [''a'', ''b'']))) = Inr (StrArray [''a'', ''b''])
   \<and> [''a'', ''b''] \<noteq> []
   \<and> validate_data (Seq (PyList (StrArray [''a'', ''b'']))) ''data'' = Inl (TypeError isnan_unsupported)
   \<and> to_array (Seq (NdArray (StrArray []))) = Inr (StrArray [])
   \<and> validate_data (Seq (NdArray (StrArray []))) ''data'' = Inl (ValueError (''data'' @ '' is empty''))
   \<and> validate_data (Seq (NdArray (NumArray [NaN, NaN, NaN]))) ''data'' =
       Inl (ValueError (''data'' @ '' contains only NaN values''))
   \<and> (\<exists>xs. to_array (Seq (NdArray (NumArray [NaN, NaN, NaN]))) = Inr (NumArray xs) \<and> xs \<noteq> []
         \<and> list_all np_isnan xs)"
proof -
  have a: "to_array (Seq (PyList (StrArray [''a'', ''b'']))) = Inr (StrArray [''a'', ''b''])"
    and b: "[''a'', ''b''] \<noteq> []"
    and e: "to_array (Seq (NdArray (StrArray []))) = Inr (StrArray [])"
    by simp_all
  have c: "validate_data (Seq (NdArray (NumArray [NaN, NaN, NaN]))) ''data'' =
       Inl (ValueError (''data'' @ '' contains only NaN values''))"
    by (simp add: validate_data_def)
  from nan_check_raises_on_non_numeric[of "Seq (PyList (StrArray [''a'', ''b'']))" "[''a'', ''b'']" "''data''"] a b
  have 1: "validate_data (Seq (PyList (StrArray [''a'', ''b'']))) ''data'' = Inl (TypeError isnan_unsupported)"
    by blast
  from nan_check_raises_on_non_numeric[of "Seq (NdArray (StrArray []))" "[]" "''data''"] e
  have 3: "validate_data (Seq (NdArray (StrArray []))) ''data'' = Inl (ValueError (''data'' @ '' is empty''))"
    by blast
  from nan_check_raises_on_non_numeric[of "Seq (NdArray (NumArray [NaN, NaN, NaN]))" "[]" "''data''"] c
  have 2: "\<exists>xs. to_array (Seq (NdArray (NumArray [NaN, NaN, NaN]))) = Inr (NumArray xs) \<and> xs \<noteq> []
         \<and> list_all np_isnan xs"
    by blast
  show ?thesis
    apply (intro conjI)
    apply (rule a)
    apply (rule b)
    apply (rule 1)
    apply (rule e)
    apply (rule 3)
    apply (rule c)
    apply (rule 2)
    done
qed

text \<open>
  As C10 is written, for every input that converts to an array of strings, it fails at
  the empty array of strings: the size test comes first and raises the ValueError
  "is empty".
\<close>

theorem empty_string_array_counterexample:
  "to_array (Seq (NdArray (StrArray []))) = Inr (StrArray [])
   \<and> validate_data (Seq (NdArray (StrArray []))) ''data'' = Inl (ValueError ''data is empty'')"
  by (simp add: validate_data_def)

lemma check_lengths_mismatch:
  "\<exists>y_arr\<in>set yas. num_len y_arr \<noteq> n \<Longrightarrow>
   \<exists>j. check_lengths yas i n = Some (ValueError (''x and y['' @ str_of_nat j @ ''] must have the same length''))"
  by (induction yas arbitrary: i) auto

lemma check_lengths_None: "check_lengths yas i n = None \<longleftrightarrow> (\<forall>y_arr\<in>set yas. num_len y_arr = n)"
  by (induction yas arbitrary: i) auto

lemma scatter_validation:
  "validate_data x ''x'' = Inl e \<Longrightarrow>
     scatter sel x y marginals title xlabel ylabel figsize color alpha sz axo st = (Inl e, st)"
  "validate_data x ''x'' = Inr x_array \<Longrightarrow> validate_data y ''y'' = Inl e \<Longrightarrow>
     scatter sel x y marginals title xlabel ylabel figsize color alpha sz axo st = (Inl e, st)"
  "validate_data x ''x'' = Inr x_array \<Longrightarrow> validate_data y ''y'' = Inr y_array \<Longrightarrow>
     num_len x_array \<noteq> num_len y_array \<Longrightarrow>
     scatter sel x y marginals title xlabel ylabel figsize color alpha sz axo st
       = (Inl (ValueError ''x and y must have the same length''), st)"
  by (simp_all add: scatter_def)

lemma line_validation:
  "validate_data x ''x'' = Inl e \<Longrightarrow>
     line x yy labels title xlabel ylabel figsize markers axo colors st = (Inl e, st)"
  "validate_data x ''x'' = Inr x_array \<Longrightarrow> validate_y yy = Inl e \<Longrightarrow>
     line x yy labels title xlabel ylabel figsize markers axo colors st = (Inl e, st)"
  "validate_data x ''x'' = Inr x_array \<Longrightarrow> validate_y yy = Inr y_arrays \<Longrightarrow>
     check_lengths y_arrays 0 (num_len x_array) = Some e \<Longrightarrow>
     line x yy labels title xlabel ylabel figsize markers axo colors st = (Inl e, st)"
  by (simp_all add: line_def)

lemma histogram_validation:
  "validate_data data ''data'' = Inl e \<Longrightarrow>
     histogram sel data bins title xlabel ylabel figsize axo color st = (Inl e, st)"
  by (simp add: histogram_def)

text \<open>
  C5. \<open>validate_data\<close> fails in these cases and no other. An input that does not become
  a numeric array raises a TypeError: the one of the conversion, or, for a non-empty array
  that is not numeric, the one of \<open>np.isnan\<close>. A converted input that is empty, or that
  is a float array and all NaN, raises a ValueError. Every other input is a float array with
  a value that is not NaN, or an integer array with a value, and is returned. In \<open>scatter\<close>
  and \<open>line\<close>, \<open>x\<close> and a \<open>y\<close> of another length raise a ValueError. Each of these
  failures, in \<open>scatter\<close>, \<open>line\<close> and \<open>histogram\<close>, leaves the state of \<open>pyplot\<close> as
  it was: no figure has been created.
\<close>

theorem validation_failures:
  "(to_array d = Inl m \<longrightarrow>
      validate_data d name = Inl (TypeError (''Could not convert '' @ name @ '' to array: '' @ m)))
   \<and> (to_array d = Inr arr \<and> arr_size arr = 0 \<longrightarrow>
      validate_data d name = Inl (ValueError (name @ '' is empty'')))
   \<and> (to_array d = Inr (NumArray xs) \<and> xs \<noteq> [] \<and> list_all np_isnan xs \<longrightarrow>
      validate_data d name = Inl (ValueError (name @ '' contains only NaN values'')))
   \<and> (to_array d = Inr (StrArray ss) \<and> ss \<noteq> [] \<longrightarrow>
      validate_data d name = Inl (TypeError isnan_unsupported))
   \<and> (to_array d = Inr (NumArray xs) \<and> xs \<noteq> [] \<and> \<not> list_all np_isnan xs \<longrightarrow>
      validate_data d name = Inr (Float64 xs))
   \<and> (to_array d = Inr (IntArray ws) \<and> ws \<noteq> [] \<longrightarrow>
      validate_data d name = Inr (Int64 ws))
   \<and> ((\<exists>e. validate_data d name = Inl e) \<longleftrightarrow>
        (\<exists>m. to_array d = Inl m)
      \<or> (\<exists>a. to_array d = Inr a \<and> arr_size a = 0)
      \<or> (\<exists>zs. to_array d = Inr (NumArray zs) \<and> list_all np_isnan zs)
      \<or> (\<exists>ts. to_array d = Inr (StrArray ts)))
   \<and> (validate_data x ''x'' = Inr x_array \<and> validate_data y ''y'' = Inr y_array
        \<and> num_len x_array \<noteq> num_len y_array \<longrightarrow>
      scatter sel x y marginals title xlabel ylabel figsize color alpha sz axo st
        = (Inl (ValueError ''x and y must have the same length''), st))
   \<and> (validate_data x ''x'' = Inr x_array \<and> validate_y yy = Inr y_arrays
        \<and> (\<exists>y_arr\<in>set y_arrays. num_len y_arr \<noteq> num_len x_array) \<longrightarrow>
      (\<exists>j. line x yy labels title xlabel ylabel figsize' markers axo colors st
        = (Inl (ValueError (''x and y['' @ str_of_nat j @ ''] must have the same length'')), st)))
   \<and> (validate_data x ''x'' = Inl e \<longrightarrow>
        scatter sel x y marginals title xlabel ylabel figsize color alpha sz axo st = (Inl e, st)
      \<and> line x yy labels title xlabel ylabel figsize' markers axo colors st = (Inl e, st))
   \<and> (validate_data x ''x'' = Inr x_array \<and> validate_data y ''y'' = Inl e \<longrightarrow>
        scatter sel x y marginals title xlabel ylabel figsize color alpha sz axo st = (Inl e, st))
   \<and> (validate_data x ''x'' = Inr x_array \<and> validate_y yy = Inl e \<longrightarrow>
        line x yy labels title xlabel ylabel figsize' markers axo colors st = (Inl e, st))
   \<and> (validate_data d ''data'' = Inl e \<longrightarrow>
        histogram sel d bins title xlabel ylabel' figsize' axo color st = (Inl e, st))"
proof (intro conjI)
  show "(\<exists>e. validate_data d name = Inl e) \<longleftrightarrow>
        (\<exists>m. to_array d = Inl m)
      \<or> (\<exists>a. to_array d = Inr a \<and> arr_size a = 0)
      \<or> (\<exists>zs. to_array d = Inr (NumArray zs) \<and> list_all np_isnan zs)
      \<or> (\<exists>ts. to_array d = Inr (StrArray ts))"
    by (cases "to_array d") (auto simp: validate_data_cases split: ndarray.splits)
  show "validate_data x ''x'' = Inr x_array \<and> validate_y yy = Inr y_arrays
        \<and> (\<exists>y_arr\<in>set y_arrays. num_len y_arr \<noteq> num_len x_array) \<longrightarrow>
      (\<exists>j. line x yy labels title xlabel ylabel figsize' markers axo colors st
        = (Inl (ValueError (''x and y['' @ str_of_nat j @ ''] must have the same length'')), st))"
  proof
    assume a: "validate_data x ''x'' = Inr x_array \<and> validate_y yy = Inr y_arrays
        \<and> (\<exists>y_arr\<in>set y_arrays. num_len y_arr \<noteq> num_len x_array)"
    then obtain j where "check_lengths y_arrays 0 (num_len x_array)
        = Some (ValueError (''x and y['' @ str_of_nat j @ ''] must have the same length''))"
      using check_lengths_mismatch by blast
    with a line_validation(3) show "\<exists>j. line x yy labels title xlabel ylabel figsize' markers axo colors st
        = (Inl (ValueError (''x and y['' @ str_of_nat j @ ''] must have the same length'')), st)"
      by blast
  qed
qed (auto simp: validate_data_cases scatter_validation line_validation histogram_validation
      split: ndarray.splits)

text \<open>
  An object that does not convert; the empty array; three NaN; a list of one string; a
  finite value with a NaN; a list of integers; \<open>x\<close> of three values against \<open>y\<close> of five
  in \<open>scatter\<close> and in \<open>line\<close>; the histogram of the empty array.
\<close>

theorem validation_failures_witness:
  "validate_data (Unconvertible ''no conversion'') ''x''
     = Inl (TypeError (''Could not convert '' @ ''x'' @ '' to array: '' @ ''no conversion''))
   \<and> validate_data (Seq (NdArray (NumArray []))) ''data'' = Inl (ValueError (''data'' @ '' is empty''))
   \<and> validate_data (Seq (NdArray (NumArray [NaN, NaN, NaN]))) ''data''
     = Inl (ValueError (''data'' @ '' contains only NaN values''))
   \<and> validate_data (Seq (PyList (StrArray [''a'']))) ''data'' = Inl (TypeError isnan_unsupported)
   \<and> validate_data (Seq (NdArray (NumArray [Fin 1, NaN]))) ''data'' = Inr (Float64 [Fin 1, NaN])
   \<and> validate_data (Seq (PyList (IntArray [1, 2, 3]))) ''data'' = Inr (Int64 [1, 2, 3])
   \<and> scatter (\<lambda>_. None) (Seq (NdArray (NumArray [Fin 1, Fin 2, Fin 3])))
        (Seq (NdArray (NumArray [Fin 1, Fin 2, Fin 3, Fin 4, Fin 5])))
        False None None None None TUFTE_COLORS_primary MARKER_STYLES_alpha MARKER_STYLES_size None 0
     = (Inl (ValueError ''x and y must have the same length''), 0)
   \<and> (\<exists>j. line (Seq (NdArray (NumArray [Fin 1, Fin 2, Fin 3])))
        (YSingle (Seq (NdArray (NumArray [Fin 1, Fin 2, Fin 3, Fin 4, Fin 5]))))
        None None None None FIGURE_SIZES_default False None None 0
     = (Inl (ValueError (''x and y['' @ str_of_nat j @ ''] must have the same length'')), 0))
   \<and> histogram (\<lambda>_. None) (Seq (NdArray (NumArray []))) (BinStrategy ''auto'') None None ''Percentage''
        FIGURE_SIZES_default None TUFTE_COLORS_primary 0
     = (Inl (ValueError (''data'' @ '' is empty'')), 0)"
proof -
  let ?x = "Seq (NdArray (NumArray [Fin 1, Fin 2, Fin 3]))"
  let ?y = "Seq (NdArray (NumArray [Fin 1, Fin 2, Fin 3, Fin 4, Fin 5]))"
  have vx: "validate_data ?x ''x'' = Inr (Float64 [Fin 1, Fin 2, Fin 3])"
    and vy: "validate_data ?y ''y'' = Inr (Float64 [Fin 1, Fin 2, Fin 3, Fin 4, Fin 5])"
    and vyy: "validate_y (YSingle ?y) = Inr [Float64 [Fin 1, Fin 2, Fin 3, Fin 4, Fin 5]]"
    by (simp_all add: validate_data_def validate_y_def)
  have 1: "validate_data (Unconvertible ''no conversion'') ''x''
     = Inl (TypeError (''Could not convert '' @ ''x'' @ '' to array: '' @ ''no conversion''))"
    using validation_failures[where d = "Unconvertible ''no conversion''" and m = "''no conversion''"
        and name = "''x''"]
    by simp
  have 2: "validate_data (Seq (NdArray (NumArray []))) ''data'' = Inl (ValueError (''data'' @ '' is empty''))"
    using validation_failures[where d = "Seq (NdArray (NumArray []))" and name = "''data''"
        and arr = "NumArray []"]
    by simp
  have 3: "validate_data (Seq (NdArray (NumArray [NaN, NaN, NaN]))) ''data''
     = Inl (ValueError (''data'' @ '' contains only NaN values''))"
    using validation_failures[where d = "Seq (NdArray (NumArray [NaN, NaN, NaN]))" and name = "''data''"
        and xs = "[NaN, NaN, NaN]"]
    by simp
  have 4: "validate_data (Seq (PyList (StrArray [''a'']))) ''data'' = Inl (TypeError isnan_unsupported)"
    using validation_failures[where d = "Seq (PyList (StrArray [''a'']))" and name = "''data''"
        and ss = "[''a'']"]
    by simp
  have 5: "validate_data (Seq (NdArray (NumArray [Fin 1, NaN]))) ''data'' = Inr (Float64 [Fin 1, NaN])"
    using validation_failures[where d = "Seq (NdArray (NumArray [Fin 1, NaN]))" and name = "''data''"
        and xs = "[Fin 1, NaN]"]
    by simp
  have 9: "validate_data (Seq (PyList (IntArray [1, 2, 3]))) ''data'' = Inr (Int64 [1, 2, 3])"
    using validation_failures[where d = "Seq (PyList (IntArray [1, 2, 3]))" and name = "''data''"
        and ws = "[1, 2, 3]"]
    by simp
  note t = validation_failures[where d = "Seq (NdArray (NumArray []))" and name = "''data''"
      and x = ?x and x_array = "Float64 [Fin 1, Fin 2, Fin 3]" and y = ?y
      and y_array = "Float64 [Fin 1, Fin 2, Fin 3, Fin 4, Fin 5]" and sel = "\<lambda>_. None"
      and marginals = False and title = None and xlabel = None and ylabel = None and figsize = None
      and color = TUFTE_COLORS_primary and alpha = MARKER_STYLES_alpha and sz = MARKER_STYLES_size
      and axo = None and st = 0 and yy = "YSingle ?y"
      and y_arrays = "[Float64 [Fin 1, Fin 2, Fin 3, Fin 4, Fin 5]]"
      and labels = None and figsize' = FIGURE_SIZES_default and markers = False and colors = None
      and e = "ValueError (''data'' @ '' is empty'')"
      and bins = "BinStrategy ''auto''" and ylabel' = "''Percentage''"]
  have 6: "scatter (\<lambda>_. None) ?x ?y
        False None None None None TUFTE_COLORS_primary MARKER_STYLES_alpha MARKER_STYLES_size None 0
     = (Inl (ValueError ''x and y must have the same length''), 0)"
    using t vx vy by simp
  have 7: "\<exists>j. line ?x (YSingle ?y) None None None None FIGURE_SIZES_default False None None 0
     = (Inl (ValueError (''x and y['' @ str_of_nat j @ ''] must have the same length'')), 0)"
    using t vx vyy by simp
  have 8: "histogram (\<lambda>_. None) (Seq (NdArray (NumArray []))) (BinStrategy ''auto'') None None ''Percentage''
        FIGURE_SIZES_default None TUFTE_COLORS_primary 0
     = (Inl (ValueError (''data'' @ '' is empty'')), 0)"
    using t 2 by simp
  show ?thesis
    apply (intro conjI)
    apply (rule 1)
    apply (rule 2)
    apply (rule 3)
    apply (rule 4)
    apply (rule 5)
    apply (rule 9)
    apply (rule 6)
    apply (rule 7)
    apply (rule 8)
    done
qed

section \<open>The series a line plot draws\<close>

lemma validate_each_length:
  "validate_each ys i = Inr yas \<Longrightarrow> length yas = length ys \<and> (\<forall>a\<in>set yas. 0 < num_len a)"
  by (induction ys arbitrary: i yas)
     (auto split: sum.splits dest: validate_data_nonempty)

lemma validate_y_nonempty:
  assumes "validate_y yy = Inr yas"
  shows "yas \<noteq> [] \<and> (\<forall>a\<in>set yas. 0 < num_len a)"
proof (cases yy)
  case (YSingle d)
  with assms obtain a where "validate_data d ''y'' = Inr a" "yas = [a]"
    by (auto simp: validate_y_def split: sum.splits)
  with validate_data_nonempty[of d "''y''" a] show ?thesis by simp
next
  case (YList ys)
  show ?thesis
  proof (cases ys)
    case Nil
    with YList assms obtain a where "validate_data (Seq (PyList (NumArray []))) ''y'' = Inr a" "yas = [a]"
      by (auto simp: validate_y_def split: sum.splits)
    with validate_data_nonempty[of "Seq (PyList (NumArray []))" "''y''" a] show ?thesis by simp
  next
    case (Cons y0 ys')
    with YList assms have "validate_each ys 0 = Inr yas" by (simp add: validate_y_def)
    from validate_each_length[OF this] Cons show ?thesis by auto
  qed
qed

lemma validate_y_YList_length:
  "validate_y (YList ys) = Inr yas \<Longrightarrow> ys \<noteq> [] \<Longrightarrow> length yas = length ys"
proof -
  assume a: "validate_y (YList ys) = Inr yas" and "ys \<noteq> []"
  then obtain y0 ys' where "ys = y0 # ys'" by (cases ys) auto
  with a have "validate_each ys 0 = Inr yas" by (simp add: validate_y_def)
  from validate_each_length[OF this] show ?thesis by simp
qed

lemma ensure_labels_length: "length (ensure_labels ls n) = max (length ls) n"
proof (induction ls n rule: ensure_labels.induct)
  case (1 label_list n)
  show ?case
  proof (cases "length label_list < n")
    case True
    with 1 show ?thesis by (subst ensure_labels.simps) auto
  next
    case False
    then show ?thesis by (subst ensure_labels.simps) auto
  qed
qed

lemma line_labels_length: "n \<le> length (line_labels labels n)"
  by (simp add: line_labels_def ensure_labels_length)

lemma fold_add_artist:
  "artists (fold (\<lambda>p. add_artist (f p)) ps ax) = artists ax @ map f ps"
  by (induction ps arbitrary: ax) (simp_all add: add_artist_def)

lemma plot_lines_artists:
  "artists (plot_lines x_array markers y_arrays colors label_list ax) =
     artists ax @ map (\<lambda>(y_arr, color, label). Line2D x_array y_arr color markers label)
                      (zip y_arrays (zip colors label_list))"
proof -
  have "(\<lambda>(y_arr, color, label). add_artist (Line2D x_array y_arr color markers label))
      = (\<lambda>p. add_artist ((\<lambda>(y_arr, color, label). Line2D x_array y_arr color markers label) p))"
    by auto
  then show ?thesis unfolding plot_lines_def by (simp only: fold_add_artist)
qed

lemma palette_only: "4 \<le> n \<Longrightarrow> line_colors None n = GRAYSCALE_PALETTE"
  by (simp add: line_colors_def slice_def GRAYSCALE_PALETTE_def)

lemma zip_four:
  assumes "length cs = 4" "4 \<le> length ys" "4 \<le> length ls"
  shows "zip ys (zip cs ls) = zip (take 4 ys) (zip cs (take 4 ls))"
    and "length (zip ys (zip cs ls)) = 4"
proof -
  have "zip ys (zip cs ls) = take 4 (zip ys (zip cs ls))"
    using assms by simp
  also have "\<dots> = zip (take 4 ys) (zip cs (take 4 ls))"
    using assms by (simp add: take_zip)
  finally show "zip ys (zip cs ls) = zip (take 4 ys) (zip cs (take 4 ls))" .
  show "length (zip ys (zip cs ls)) = 4" using assms by simp
qed

lemma plot_lines_four:
  assumes "4 < length y_arrays"
  shows "artists (plot_lines x_array markers y_arrays (line_colors None (length y_arrays))
                    (line_labels labels (length y_arrays)) ax0)
         = artists ax0 @ map (\<lambda>(y_arr, color, label). Line2D x_array y_arr color markers label)
                    (zip (take 4 y_arrays)
                         (zip GRAYSCALE_PALETTE (take 4 (line_labels labels (length y_arrays)))))"
    and "length (artists (plot_lines x_array markers y_arrays (line_colors None (length y_arrays))
                    (line_labels labels (length y_arrays)) ax0)) = length (artists ax0) + 4"
proof -
  from assms have n4: "4 \<le> length y_arrays" by simp
  have p: "length GRAYSCALE_PALETTE = 4" by (simp add: GRAYSCALE_PALETTE_def)
  have l4: "4 \<le> length (line_labels labels (length y_arrays))"
    using line_labels_length[of "length y_arrays" labels] n4 by simp
  note z = zip_four[OF p n4 l4]
  show "artists (plot_lines x_array markers y_arrays (line_colors None (length y_arrays))
                    (line_labels labels (length y_arrays)) ax0)
         = artists ax0 @ map (\<lambda>(y_arr, color, label). Line2D x_array y_arr color markers label)
                    (zip (take 4 y_arrays)
                         (zip GRAYSCALE_PALETTE (take 4 (line_labels labels (length y_arrays)))))"
    unfolding plot_lines_artists palette_only[OF n4] z(1) ..
  show "length (artists (plot_lines x_array markers y_arrays (line_colors None (length y_arrays))
                    (line_labels labels (length y_arrays)) ax0)) = length (artists ax0) + 4"
    unfolding plot_lines_artists palette_only[OF n4] using z(2) by simp
qed

lemma range_frame_keeps_artists:
  assumes "range_frame ax x_data y_data xp yp = Inr ax'"
  shows "artists ax' = artists ax"
proof -
  from assms obtain ax1 where 1: "range_frame_x ax x_data xp = Inr ax1"
    and 2: "range_frame_y ax1 y_data yp = Inr ax'"
    by (auto simp: range_frame_def split: sum.splits)
  from range_frame_x_keeps(3)[OF 1] range_frame_y_keeps(3)[OF 2] show ?thesis by simp
qed

text \<open>What \<open>line\<close> has done when it returns.\<close>

lemma line_returns:
  assumes "line x yy labels title xlabel ylabel figsize markers axo colors st = (Inr (fig, ax'), st')"
  shows "\<exists>x_array y_arrays.
           validate_data x ''x'' = Inr x_array \<and> validate_y yy = Inr y_arrays
         \<and> check_lengths y_arrays 0 (num_len x_array) = None
         \<and> artists ax' = (case axo of None \<Rightarrow> [] | Some a \<Rightarrow> artists a)
              @ map (\<lambda>(y_arr, color, label). Line2D x_array y_arr color markers label)
                    (zip y_arrays (zip (line_colors colors (length y_arrays))
                                       (line_labels labels (length y_arrays))))"
proof -
  from assms obtain x_array where vx: "validate_data x ''x'' = Inr x_array"
    by (cases "validate_data x ''x''") (auto simp: line_def)
  from assms vx obtain y_arrays where vy: "validate_y yy = Inr y_arrays"
    by (cases "validate_y yy") (auto simp: line_def)
  from assms vx vy have cl: "check_lengths y_arrays 0 (num_len x_array) = None"
    by (cases "check_lengths y_arrays 0 (num_len x_array)") (auto simp: line_def)
  obtain fig0 ax0 st0 where c: "create_figure_and_axes figsize axo st = ((fig0, ax0), st0)"
    by (metis prod.exhaust)
  define ax1 where "ax1 = plot_lines x_array markers y_arrays (line_colors colors (length y_arrays))
      (line_labels labels (length y_arrays)) ax0"
  define ax5 where "ax5 =
     (let ax2 = set_tufte_style ax1;
          ax3 = (if truthy title then ax2\<lparr>ax_title := title\<rparr> else ax2);
          ax4 = (if truthy xlabel then ax3\<lparr>ax_xlabel := xlabel\<rparr> else ax3)
      in (if truthy ylabel then ax4\<lparr>ax_ylabel := ylabel\<rparr> else ax4))"
  have a5: "artists ax5 = artists ax1"
    by (simp add: ax5_def Let_def set_tufte_style_keeps)
  have l1: "line x yy labels title xlabel ylabel figsize markers axo colors st = (Inl e, st0)"
    if "np_concatenate y_arrays = Inl e" for e
    using vx vy cl c that unfolding line_def by (simp add: Let_def)
  from assms l1 obtain all_y where cc: "np_concatenate y_arrays = Inr all_y"
    by (cases "np_concatenate y_arrays") auto
  have l2: "line x yy labels title xlabel ylabel figsize markers axo colors st = (Inl e, st0)"
    if "range_frame ax5 (Some x_array) (Some all_y) default_padding default_padding = Inl e" for e
    using vx vy cl c cc that unfolding line_def ax5_def ax1_def by (simp add: Let_def)
  from assms l2 obtain ax6 where
    r: "range_frame ax5 (Some x_array) (Some all_y) default_padding default_padding = Inr ax6"
    by (cases "range_frame ax5 (Some x_array) (Some all_y) default_padding default_padding") auto
  have "line x yy labels title xlabel ylabel figsize markers axo colors st =
      (Inr (fig0, if list_ex (\<lambda>label. label \<noteq> None) (line_labels labels (length y_arrays))
                  then ax6\<lparr>legend_drawn := True\<rparr> else ax6), st0)"
    using vx vy cl c cc r unfolding line_def ax5_def ax1_def by (simp add: Let_def)
  with assms have "ax' = (if list_ex (\<lambda>label. label \<noteq> None) (line_labels labels (length y_arrays))
                           then ax6\<lparr>legend_drawn := True\<rparr> else ax6)"
    by simp
  then have "artists ax' = artists ax6" by simp
  also have "\<dots> = artists ax1" using range_frame_keeps_artists[OF r] a5 by simp
  also have "\<dots> = artists ax0
       @ map (\<lambda>(y_arr, color, label). Line2D x_array y_arr color markers label)
                    (zip y_arrays (zip (line_colors colors (length y_arrays))
                                       (line_labels labels (length y_arrays))))"
    by (simp add: ax1_def plot_lines_artists)
  finally show ?thesis
    using vx vy cl create_figure_and_axes_fields(3)[OF c] by simp
qed

text \<open>Data without NaN and infinity: the range frame is set and \<open>line\<close> returns.\<close>

lemma finite_as_Fin: "list_all np_isfinite xs \<Longrightarrow> xs = map Fin (finite_part xs)"
  by (induction xs rule: finite_part.induct) simp_all

lemma range_frame_x_finite:
  assumes "0 < num_len arr" "list_all np_isfinite (as_floats arr)"
  shows "\<exists>ax'. range_frame_x ax (Some arr) (Fin p) = Inr ax'"
proof (cases arr)
  case (Float64 xs)
  with assms have xs: "xs = map Fin (finite_part xs)" and "xs \<noteq> []"
    using finite_as_Fin by auto
  then have ne: "finite_part xs \<noteq> []" by auto
  from arr_min_floats[OF ne] arr_max_floats[OF ne] xs
  have "arr_min (Float64 xs) = Inr (FloatS (Fin (Min (set (finite_part xs)))))"
    "arr_max (Float64 xs) = Inr (FloatS (Fin (Max (set (finite_part xs)))))"
    by simp_all
  with Float64 show ?thesis
    by (simp add: range_frame_x_def set_xlim_def fl_sub_def Let_def del: arr_min.simps arr_max.simps)
next
  case (Int64 ws)
  with assms have "ws \<noteq> []" by auto
  from int_min_sint[OF this] int_max_sint[OF this] obtain a b where
    "int_min ws = Inr a" "int_max ws = Inr b" by blast
  with Int64 show ?thesis
    by (simp add: range_frame_x_def set_xlim_def fl_sub_def int_to_float_def Let_def)
qed

lemma range_frame_y_finite:
  assumes "0 < num_len arr" "list_all np_isfinite (as_floats arr)"
  shows "\<exists>ax'. range_frame_y ax (Some arr) (Fin p) = Inr ax'"
proof (cases arr)
  case (Float64 xs)
  with assms have xs: "xs = map Fin (finite_part xs)" and "xs \<noteq> []"
    using finite_as_Fin by auto
  then have ne: "finite_part xs \<noteq> []" by auto
  from arr_min_floats[OF ne] arr_max_floats[OF ne] xs
  have "arr_min (Float64 xs) = Inr (FloatS (Fin (Min (set (finite_part xs)))))"
    "arr_max (Float64 xs) = Inr (FloatS (Fin (Max (set (finite_part xs)))))"
    by simp_all
  with Float64 show ?thesis
    by (simp add: range_frame_y_def set_ylim_def fl_sub_def Let_def del: arr_min.simps arr_max.simps)
next
  case (Int64 ws)
  with assms have "ws \<noteq> []" by auto
  from int_min_sint[OF this] int_max_sint[OF this] obtain a b where
    "int_min ws = Inr a" "int_max ws = Inr b" by blast
  with Int64 show ?thesis
    by (simp add: range_frame_y_def set_ylim_def fl_sub_def int_to_float_def Let_def)
qed

lemma all_ints_as_floats:
  "all_ints arrs = Some ws \<Longrightarrow> map int_to_float ws = concat (map as_floats arrs)"
  by (induction arrs arbitrary: ws rule: all_ints.induct) (auto split: option.splits)

lemma np_concatenate_as_floats:
  "np_concatenate arrs = Inr a \<Longrightarrow> as_floats a = concat (map as_floats arrs)"
  by (auto simp: np_concatenate_def all_ints_as_floats split: if_splits option.splits)

lemma np_concatenate_Inr: "arrs \<noteq> [] \<Longrightarrow> \<exists>a. np_concatenate arrs = Inr a"
  by (simp add: np_concatenate_def split: option.splits)

lemma num_len_as_floats: "num_len a = length (as_floats a)"
  by (cases a) simp_all

lemma line_finite_returns:
  assumes "validate_data x ''x'' = Inr x_array" "validate_y yy = Inr y_arrays"
    and "check_lengths y_arrays 0 (num_len x_array) = None"
    and "list_all np_isfinite (as_floats x_array)"
    and "list_all (\<lambda>y_arr. list_all np_isfinite (as_floats y_arr)) y_arrays"
  shows "\<exists>fig ax' st'.
           line x yy labels title xlabel ylabel figsize markers axo colors st = (Inr (fig, ax'), st')"
proof -
  obtain fig0 ax0 st0 where c: "create_figure_and_axes figsize axo st = ((fig0, ax0), st0)"
    by (metis prod.exhaust)
  define ax5 where "ax5 =
     (let ax1 = plot_lines x_array markers y_arrays (line_colors colors (length y_arrays))
                  (line_labels labels (length y_arrays)) ax0;
          ax2 = set_tufte_style ax1;
          ax3 = (if truthy title then ax2\<lparr>ax_title := title\<rparr> else ax2);
          ax4 = (if truthy xlabel then ax3\<lparr>ax_xlabel := xlabel\<rparr> else ax3)
      in (if truthy ylabel then ax4\<lparr>ax_ylabel := ylabel\<rparr> else ax4))"
  from validate_y_nonempty[OF assms(2)] have ne: "y_arrays \<noteq> []"
    and pos: "\<forall>a\<in>set y_arrays. 0 < num_len a" by simp_all
  from np_concatenate_Inr[OF ne] obtain all_y where cc: "np_concatenate y_arrays = Inr all_y" ..
  note af = np_concatenate_as_floats[OF cc]
  from ne pos have "0 < num_len all_y"
    unfolding num_len_as_floats af by (cases y_arrays) (auto simp: num_len_as_floats)
  moreover from assms(5) have "list_all np_isfinite (as_floats all_y)"
    unfolding af by (induction y_arrays) simp_all
  moreover note validate_data_nonempty[OF assms(1)] assms(4)
  ultimately obtain ax6 where
    r: "range_frame ax5 (Some x_array) (Some all_y) default_padding default_padding = Inr ax6"
    using range_frame_x_finite range_frame_y_finite
    unfolding range_frame_def default_padding_def
    by (metis sum.case(2))
  have "line x yy labels title xlabel ylabel figsize markers axo colors st =
      (Inr (fig0, if list_ex (\<lambda>label. label \<noteq> None) (line_labels labels (length y_arrays))
                           then ax6\<lparr>legend_drawn := True\<rparr> else ax6), st0)"
    using assms(1-3) c cc r unfolding line_def ax5_def by (simp add: Let_def)
  then show ?thesis by blast
qed

text \<open>
  C9. With \<open>colors=None\<close> and more than four series the plotting loop of \<open>line\<close> adds
  four lines to the axes, the length of the grayscale palette and not the number of
  series: the lines of the first four series, in the four palette colours; the series
  after the fourth are not drawn. Whenever such a call of \<open>line\<close> returns, every series
  had been validated and length-checked, and the axes it returns hold these four lines more
  than before. The call returns when \<open>x\<close> and the series hold no NaN and no infinity
  (with one, the range frame raises after the loop has run).
\<close>

theorem line_plots_four_series_at_most:
  "(4 < length y_arrays \<longrightarrow>
      artists (plot_lines x_array markers y_arrays (line_colors None (length y_arrays))
                 (line_labels labels (length y_arrays)) ax_old)
        = artists ax_old @ map (\<lambda>(y_arr, color, label). Line2D x_array y_arr color markers label)
                    (zip (take 4 y_arrays)
                         (zip GRAYSCALE_PALETTE (take 4 (line_labels labels (length y_arrays)))))
      \<and> length (artists (plot_lines x_array markers y_arrays (line_colors None (length y_arrays))
                 (line_labels labels (length y_arrays)) ax_old)) = length (artists ax_old) + 4)
   \<and> (4 < length ys
       \<and> line x (YList ys) labels title xlabel ylabel figsize markers axo None st = (Inr (fig, ax'), st') \<longrightarrow>
      (\<exists>xa yas. validate_data x ''x'' = Inr xa \<and> validate_y (YList ys) = Inr yas
         \<and> length yas = length ys \<and> check_lengths yas 0 (num_len xa) = None
         \<and> artists ax' = (case axo of None \<Rightarrow> [] | Some a \<Rightarrow> artists a)
              @ map (\<lambda>(y_arr, color, label). Line2D xa y_arr color markers label)
                    (zip (take 4 yas)
                         (zip GRAYSCALE_PALETTE (take 4 (line_labels labels (length yas)))))
         \<and> length (artists ax') = length (case axo of None \<Rightarrow> [] | Some a \<Rightarrow> artists a) + 4))
   \<and> (4 < length ys
       \<and> validate_data x ''x'' = Inr x_arr \<and> validate_y (YList ys) = Inr y_arrs
       \<and> check_lengths y_arrs 0 (num_len x_arr) = None
       \<and> list_all np_isfinite (as_floats x_arr)
       \<and> list_all (\<lambda>y_arr. list_all np_isfinite (as_floats y_arr)) y_arrs \<longrightarrow>
      (\<exists>fig ax' st'.
         line x (YList ys) labels title xlabel ylabel figsize markers axo None st = (Inr (fig, ax'), st')
         \<and> length y_arrs = length ys
         \<and> artists ax' = (case axo of None \<Rightarrow> [] | Some a \<Rightarrow> artists a)
              @ map (\<lambda>(y_arr, color, label). Line2D x_arr y_arr color markers label)
                    (zip (take 4 y_arrs)
                         (zip GRAYSCALE_PALETTE (take 4 (line_labels labels (length y_arrs)))))
         \<and> length (artists ax') = length (case axo of None \<Rightarrow> [] | Some a \<Rightarrow> artists a) + 4))"
proof -
  let ?old = "case axo of None \<Rightarrow> [] | Some a \<Rightarrow> artists a"
  have returned: "\<exists>xa yas. validate_data x ''x'' = Inr xa \<and> validate_y (YList ys) = Inr yas
         \<and> length yas = length ys \<and> check_lengths yas 0 (num_len xa) = None
         \<and> artists a' = ?old
              @ map (\<lambda>(y_arr, color, label). Line2D xa y_arr color markers label)
                    (zip (take 4 yas)
                         (zip GRAYSCALE_PALETTE (take 4 (line_labels labels (length yas)))))
         \<and> length (artists a') = length ?old + 4"
    if n: "4 < length ys"
      and r: "line x (YList ys) labels title xlabel ylabel figsize markers axo None st = (Inr (f, a'), s')"
    for f a' s'
  proof -
    from line_returns[OF r] obtain xa yas where vx: "validate_data x ''x'' = Inr xa"
      and vy: "validate_y (YList ys) = Inr yas" and cl: "check_lengths yas 0 (num_len xa) = None"
      and a: "artists a' = ?old
              @ map (\<lambda>(y_arr, color, label). Line2D xa y_arr color markers label)
                    (zip yas (zip (line_colors None (length yas)) (line_labels labels (length yas))))"
      by blast
    from n have "ys \<noteq> []" by auto
    from validate_y_YList_length[OF vy this] have len: "length yas = length ys" .
    with n have n4: "4 \<le> length yas" by simp
    have p: "length GRAYSCALE_PALETTE = 4" by (simp add: GRAYSCALE_PALETTE_def)
    have l4: "4 \<le> length (line_labels labels (length yas))"
      using line_labels_length[of "length yas" labels] n4 by simp
    note z = zip_four[OF p n4 l4]
    have a4: "artists a' = ?old
              @ map (\<lambda>(y_arr, color, label). Line2D xa y_arr color markers label)
                    (zip (take 4 yas) (zip GRAYSCALE_PALETTE (take 4 (line_labels labels (length yas)))))"
      using a unfolding palette_only[OF n4] z(1) .
    have "length (artists a') = length ?old + 4"
      using a unfolding palette_only[OF n4] using z(2) by simp
    with vx vy cl len a4 show ?thesis by blast
  qed
  show ?thesis
  proof (intro conjI impI)
    assume "4 < length y_arrays"
    from plot_lines_four[OF this]
    show "artists (plot_lines x_array markers y_arrays (line_colors None (length y_arrays))
                 (line_labels labels (length y_arrays)) ax_old)
        = artists ax_old @ map (\<lambda>(y_arr, color, label). Line2D x_array y_arr color markers label)
                    (zip (take 4 y_arrays)
                         (zip GRAYSCALE_PALETTE (take 4 (line_labels labels (length y_arrays)))))"
      and "length (artists (plot_lines x_array markers y_arrays (line_colors None (length y_arrays))
                 (line_labels labels (length y_arrays)) ax_old)) = length (artists ax_old) + 4"
      by simp_all
  next
    assume "4 < length ys
       \<and> line x (YList ys) labels title xlabel ylabel figsize markers axo None st = (Inr (fig, ax'), st')"
    then show "\<exists>xa yas. validate_data x ''x'' = Inr xa \<and> validate_y (YList ys) = Inr yas
         \<and> length yas = length ys \<and> check_lengths yas 0 (num_len xa) = None
         \<and> artists ax' = ?old
              @ map (\<lambda>(y_arr, color, label). Line2D xa y_arr color markers label)
                    (zip (take 4 yas)
                         (zip GRAYSCALE_PALETTE (take 4 (line_labels labels (length yas)))))
         \<and> length (artists ax') = length ?old + 4"
      using returned by blast
  next
    assume h: "4 < length ys
       \<and> validate_data x ''x'' = Inr x_arr \<and> validate_y (YList ys) = Inr y_arrs
       \<and> check_lengths y_arrs 0 (num_len x_arr) = None
       \<and> list_all np_isfinite (as_floats x_arr)
       \<and> list_all (\<lambda>y_arr. list_all np_isfinite (as_floats y_arr)) y_arrs"
    then have n: "4 < length ys" and vx: "validate_data x ''x'' = Inr x_arr"
      and vy: "validate_y (YList ys) = Inr y_arrs"
      and cl: "check_lengths y_arrs 0 (num_len x_arr) = None"
      and fx: "list_all np_isfinite (as_floats x_arr)"
      and fy: "list_all (\<lambda>y_arr. list_all np_isfinite (as_floats y_arr)) y_arrs"
      by simp_all
    from line_finite_returns[OF vx vy cl fx fy] obtain f a' s' where
      r: "line x (YList ys) labels title xlabel ylabel figsize markers axo None st = (Inr (f, a'), s')"
      by blast
    from returned[OF n r] vx vy
    have "length y_arrs = length ys
         \<and> artists a' = ?old
              @ map (\<lambda>(y_arr, color, label). Line2D x_arr y_arr color markers label)
                    (zip (take 4 y_arrs)
                         (zip GRAYSCALE_PALETTE (take 4 (line_labels labels (length y_arrs)))))
         \<and> length (artists a') = length ?old + 4"
      by auto
    with r show "\<exists>fig ax' st'.
         line x (YList ys) labels title xlabel ylabel figsize markers axo None st = (Inr (fig, ax'), st')
         \<and> length y_arrs = length ys
         \<and> artists ax' = ?old
              @ map (\<lambda>(y_arr, color, label). Line2D x_arr y_arr color markers label)
                    (zip (take 4 y_arrs)
                         (zip GRAYSCALE_PALETTE (take 4 (line_labels labels (length y_arrs)))))
         \<and> length (artists ax') = length ?old + 4"
      by blast
  qed
qed

text \<open>
  Five series of two points each, against an integer \<open>x\<close>, on a new figure: the loop adds
  four lines to the empty axes, and \<open>line\<close> returns axes with four lines.
\<close>

theorem line_plots_four_series_at_most_witness:
  "4 < length [Float64 [Fin 1, Fin 2], Float64 [Fin 2, Fin 3], Float64 [Fin 3, Fin 4],
               Float64 [Fin 4, Fin 5], Float64 [Fin 5, Fin 6]]
   \<and> length (artists (plot_lines (Int64 [0, 1]) False
        [Float64 [Fin 1, Fin 2], Float64 [Fin 2, Fin 3], Float64 [Fin 3, Fin 4],
         Float64 [Fin 4, Fin 5], Float64 [Fin 5, Fin 6]]
        (line_colors None 5) (line_labels None 5)
        (new_axes \<lparr>fig_num = 0, fig_size = (8, 5)\<rparr> (0, 0) False False))) = 4
   \<and> validate_data (Seq (PyList (IntArray [0, 1]))) ''x'' = Inr (Int64 [0, 1])
   \<and> validate_y (YList [PyList (NumArray [Fin 1, Fin 2]), PyList (NumArray [Fin 2, Fin 3]),
                        PyList (NumArray [Fin 3, Fin 4]), PyList (NumArray [Fin 4, Fin 5]),
                        PyList (NumArray [Fin 5, Fin 6])])
       = Inr [Float64 [Fin 1, Fin 2], Float64 [Fin 2, Fin 3], Float64 [Fin 3, Fin 4],
              Float64 [Fin 4, Fin 5], Float64 [Fin 5, Fin 6]]
   \<and> check_lengths [Float64 [Fin 1, Fin 2], Float64 [Fin 2, Fin 3], Float64 [Fin 3, Fin 4],
                     Float64 [Fin 4, Fin 5], Float64 [Fin 5, Fin 6]]
         0 (num_len (Int64 [0, 1])) = None
   \<and> list_all np_isfinite (as_floats (Int64 [0, 1]))
   \<and> list_all (\<lambda>y_arr. list_all np_isfinite (as_floats y_arr))
        [Float64 [Fin 1, Fin 2], Float64 [Fin 2, Fin 3], Float64 [Fin 3, Fin 4],
         Float64 [Fin 4, Fin 5], Float64 [Fin 5, Fin 6]]
   \<and> (\<exists>fig ax' st'.
         line (Seq (PyList (IntArray [0, 1])))
              (YList [PyList (NumArray [Fin 1, Fin 2]), PyList (NumArray [Fin 2, Fin 3]),
                      PyList (NumArray [Fin 3, Fin 4]), PyList (NumArray [Fin 4, Fin 5]),
                      PyList (NumArray [Fin 5, Fin 6])])
              None None None None FIGURE_SIZES_default False None None 0 = (Inr (fig, ax'), st')
         \<and> length (artists ax') = 4
         \<and> (\<exists>xa yas. validate_data (Seq (PyList (IntArray [0, 1]))) ''x'' = Inr xa
              \<and> validate_y (YList [PyList (NumArray [Fin 1, Fin 2]), PyList (NumArray [Fin 2, Fin 3]),
                      PyList (NumArray [Fin 3, Fin 4]), PyList (NumArray [Fin 4, Fin 5]),
                      PyList (NumArray [Fin 5, Fin 6])]) = Inr yas
              \<and> length yas = 5 \<and> check_lengths yas 0 (num_len xa) = None))"
proof -
  let ?x = "Seq (PyList (IntArray [0, 1]))"
  let ?ys = "[PyList (NumArray [Fin 1, Fin 2]), PyList (NumArray [Fin 2, Fin 3]),
              PyList (NumArray [Fin 3, Fin 4]), PyList (NumArray [Fin 4, Fin 5]),
              PyList (NumArray [Fin 5, Fin 6])]"
  let ?yas = "[Float64 [Fin 1, Fin 2], Float64 [Fin 2, Fin 3], Float64 [Fin 3, Fin 4],
               Float64 [Fin 4, Fin 5], Float64 [Fin 5, Fin 6]]"
  let ?ax = "new_axes \<lparr>fig_num = 0, fig_size = (8, 5)\<rparr> (0, 0) False False"
  have vx: "validate_data ?x ''x'' = Inr (Int64 [0, 1])"
    by (simp add: validate_data_def)
  have vy: "validate_y (YList ?ys) = Inr ?yas"
    by (simp add: validate_y_def validate_data_def)
  have cl: "check_lengths ?yas 0 (num_len (Int64 [0, 1])) = None"
    by simp
  have fx: "list_all np_isfinite (as_floats (Int64 [0, 1]))"
    by (simp add: int_to_float_def)
  have fy: "list_all (\<lambda>y_arr. list_all np_isfinite (as_floats y_arr)) ?yas"
    by simp
  have n: "4 < length ?yas" and n': "4 < length ?ys" and n5: "length ?yas = 5" "length ?ys = 5"
    by simp_all
  have e: "artists ?ax = []" by (simp add: new_axes_def)
  note t = line_plots_four_series_at_most[where y_arrays = ?yas and x_array = "Int64 [0, 1]"
      and markers = False and labels = None and ax_old = ?ax and ys = ?ys and x = ?x
      and title = None and xlabel = None and ylabel = None and figsize = FIGURE_SIZES_default
      and axo = None and st = 0 and x_arr = "Int64 [0, 1]" and y_arrs = ?yas]
  from t[THEN conjunct1, THEN mp, OF n, THEN conjunct2]
  have "length (artists (plot_lines (Int64 [0, 1]) False ?yas
        (line_colors None (length ?yas)) (line_labels None (length ?yas)) ?ax)) = length (artists ?ax) + 4" .
  then have 1: "length (artists (plot_lines (Int64 [0, 1]) False ?yas
        (line_colors None 5) (line_labels None 5) ?ax)) = 4"
    unfolding n5 e by simp
  have h: "4 < length ?ys
       \<and> validate_data ?x ''x'' = Inr (Int64 [0, 1]) \<and> validate_y (YList ?ys) = Inr ?yas
       \<and> check_lengths ?yas 0 (num_len (Int64 [0, 1])) = None
       \<and> list_all np_isfinite (as_floats (Int64 [0, 1]))
       \<and> list_all (\<lambda>y_arr. list_all np_isfinite (as_floats y_arr)) ?yas"
    using n' vx vy cl fx fy by (intro conjI)
  from t[THEN conjunct2, THEN conjunct2, THEN mp, OF h] obtain f a' s' where
    r: "line ?x (YList ?ys) None None None None FIGURE_SIZES_default False None None 0 = (Inr (f, a'), s')"
    and a0: "length (artists a') = length (case None :: axes option of None \<Rightarrow> [] | Some a \<Rightarrow> artists a) + 4"
    by blast
  from a0 have a: "length (artists a') = 4" by simp
  from line_plots_four_series_at_most[where ys = ?ys and x = ?x and labels = None
      and title = None and xlabel = None and ylabel = None and figsize = FIGURE_SIZES_default
      and markers = False and axo = None and st = 0 and fig = f and ax' = a' and st' = s',
      THEN conjunct2, THEN conjunct1, THEN mp, OF conjI, OF n' r]
  have 2: "\<exists>xa yas. validate_data ?x ''x'' = Inr xa \<and> validate_y (YList ?ys) = Inr yas
              \<and> length yas = 5 \<and> check_lengths yas 0 (num_len xa) = None"
    unfolding n5 by blast
  from r a 2 have 3: "\<exists>fig ax' st'.
         line ?x (YList ?ys) None None None None FIGURE_SIZES_default False None None 0 = (Inr (fig, ax'), st')
         \<and> length (artists ax') = 4
         \<and> (\<exists>xa yas. validate_data ?x ''x'' = Inr xa \<and> validate_y (YList ?ys) = Inr yas
              \<and> length yas = 5 \<and> check_lengths yas 0 (num_len xa) = None)"
    by blast
  show ?thesis
    apply (intro conjI)
    apply (rule n)
    apply (rule 1)
    apply (rule vx)
    apply (rule vy)
    apply (rule cl)
    apply (rule fx)
    apply (rule fy)
    apply (rule 3)
    done
qed

section \<open>Infinite and missing values in a histogram\<close>

text \<open>
  C6. The samples of the tests "Infinite values" and "Mixed NaN values" pass
  \<open>validate_data\<close>, and \<open>histogram\<close> with the default \<open>bins='auto'\<close> then raises: the
  range NumPy detects for the bins is not finite. The figure has been created by then.
\<close>

theorem histogram_raises_on_infinity_and_mixed_nan:
  "histogram (\<lambda>name. if name = ''auto'' then Some estimator else None)
      (Seq (NdArray (NumArray [Fin 1, Fin 2, Fin 3, PInf, Fin 5, Fin 6])))
      (BinStrategy ''auto'') (Some ''With Infinity'') None ''Percentage''
      FIGURE_SIZES_default None TUFTE_COLORS_primary st
     = (Inl (ValueError ''autodetected range is not finite''), Suc st)
   \<and> histogram (\<lambda>name. if name = ''auto'' then Some estimator else None)
      (Seq (NdArray (NumArray [Fin 1, Fin 2, NaN, Fin 4, Fin 5, NaN, Fin 7])))
      (BinStrategy ''auto'') (Some ''Mixed NaN Values'') None ''Percentage''
      FIGURE_SIZES_default None TUFTE_COLORS_primary st
     = (Inl (ValueError ''autodetected range is not finite''), Suc st)
   \<and> validate_data (Seq (NdArray (NumArray [Fin 1, Fin 2, Fin 3, PInf, Fin 5, Fin 6]))) ''data''
     = Inr (Float64 [Fin 1, Fin 2, Fin 3, PInf, Fin 5, Fin 6])
   \<and> validate_data (Seq (NdArray (NumArray [Fin 1, Fin 2, NaN, Fin 4, Fin 5, NaN, Fin 7]))) ''data''
     = Inr (Float64 [Fin 1, Fin 2, NaN, Fin 4, Fin 5, NaN, Fin 7])"
  by (simp add: histogram_def validate_data_def create_figure_and_axes_def plt_subplots_def
      plt_figure_def normalize_to_percentage_def np_histogram_def get_outer_edges_def
      fl_minimum_def fl_maximum_def)

end
